theory Spec2Isabelle
  imports Main "HOL-Library.AList"
begin

section \<open>Values\<close>

text \<open>
  JSON-compatible Python values. A dict is an association list in insertion order:
  \<open>map_of\<close> is lookup, \<open>AList.update\<close> is item assignment (an existing key keeps its
  place, a new key goes last), as in a Python dict. Numbers are integers; floating point
  values are outside the model.
\<close>

datatype json =
    JNull
  | JBool bool
  | JInt int
  | JStr string
  | JList "json list"
  | JObj "(string \<times> json) list"

text \<open>
  The argument map of a tool call. A dict held by the argument map is an object with an
  identity: it is a reference into the store, so that a write through one name is seen
  through every other name of the same object. The other values are never written to by
  the program and are kept as values. The argument map is the decoded JSON object of a
  call, hence a tree: no dict object occurs in it twice.
\<close>

type_synonym addr = nat

datatype pyval =
    PNone
  | PBool bool
  | PInt int
  | PStr string
  | PList "json list"
  | PDict addr

type_synonym pydict = "(string \<times> pyval) list"

section \<open>Requests, responses, failures\<close>

text \<open>One call of \<open>self.client.request(method, url, params, json)\<close>, with the default
  headers the HTTP client was constructed with.\<close>

record http_request =
  req_method :: string
  req_url :: string
  req_headers :: "(string \<times> string) list"
  req_params :: "(string \<times> json) list option"
  req_json :: "json option"

text \<open>A response of the remote API: \<open>parsed\<close> is what \<open>response.json()\<close> gives, the
  decoded body or the decoder's error message.\<close>

record response =
  status_code :: nat
  text_body :: string
  parsed :: "string + json"

datatype reply =
    Failed string
  | Answered response

text \<open>
  The exceptions the program can meet. \<open>RequestError\<close> stands for the transport failures
  of the HTTP library (connection, timeout, DNS), \<open>HTTPStatusError\<close> is raised by
  \<open>raise_for_status\<close> and carries its message and the response.
\<close>

datatype exc =
    KeyError string
  | TypeError string
  | ValueError string
  | HTTPStatusError string response
  | RequestError string
  | JSONDecodeError string

text \<open>
  What the program does not define itself: \<open>urllib.parse.urljoin\<close>, the answer of the
  HTTP library to a request, the message \<open>raise_for_status\<close> gives its exception, and
  \<open>repr\<close> of a list or dict inside an f-string.
\<close>

record world =
  urljoin :: "string \<Rightarrow> string \<Rightarrow> string"
  exchange :: "http_request \<Rightarrow> reply"
  status_message :: "response \<Rightarrow> string"
  py_repr :: "json \<Rightarrow> string"

text \<open>
  The state the program acts on: the dict objects of the caller (\<open>heap\<close>, with \<open>lim\<close> the
  next free address), the requests handed to the HTTP library and the lines written to
  the error log, both oldest first.
\<close>

record state =
  heap :: "addr \<Rightarrow> (string \<times> json) list"
  lim :: addr
  sent :: "http_request list"
  logged :: "string list"

section \<open>Python primitives\<close>

definition quote :: string where
  "quote = [CHR 0x27]"

definition digit :: "nat \<Rightarrow> char" where
  "digit n = ''0123456789'' ! (n mod 10)"

function dec :: "nat \<Rightarrow> string" where
  "dec n = (if n < 10 then [digit n] else dec (n div 10) @ [digit n])"
  by pat_completeness auto
termination
  by (relation "measure id") auto

declare dec.simps [simp del]

definition show_int :: "int \<Rightarrow> string" where
  "show_int i = (if i < 0 then ''-'' @ dec (nat (- i)) else dec (nat i))"

text \<open>\<open>{v}\<close> inside an f-string.\<close>

fun py_format :: "world \<Rightarrow> json \<Rightarrow> string" where
  "py_format w (JStr s) = s"
| "py_format w JNull = ''None''"
| "py_format w (JBool b) = (if b then ''True'' else ''False'')"
| "py_format w (JInt i) = show_int i"
| "py_format w v = py_repr w v"

text \<open>\<open>if v:\<close>\<close>

fun truthy :: "json \<Rightarrow> bool" where
  "truthy JNull = False"
| "truthy (JBool b) = b"
| "truthy (JInt i) = (i \<noteq> 0)"
| "truthy (JStr s) = (s \<noteq> [])"
| "truthy (JList xs) = (xs \<noteq> [])"
| "truthy (JObj d) = (d \<noteq> [])"

fun type_name :: "json \<Rightarrow> string" where
  "type_name JNull = ''NoneType''"
| "type_name (JBool b) = ''bool''"
| "type_name (JInt i) = ''int''"
| "type_name (JStr s) = ''str''"
| "type_name (JList xs) = ''list''"
| "type_name (JObj d) = ''dict''"

fun join_str :: "string \<Rightarrow> string list \<Rightarrow> string" where
  "join_str sep [] = []"
| "join_str sep [x] = x"
| "join_str sep (x # y # ys) = x @ sep @ join_str sep (y # ys)"

text \<open>The items of a list being joined: the first item that is not a string raises.\<close>

fun str_items :: "nat \<Rightarrow> json list \<Rightarrow> exc + string list" where
  "str_items i [] = Inr []"
| "str_items i (JStr s # xs) =
     (case str_items (Suc i) xs of Inl e \<Rightarrow> Inl e | Inr ss \<Rightarrow> Inr (s # ss))"
| "str_items i (v # xs) =
     Inl (TypeError (''sequence item '' @ dec i @ '': expected str instance, ''
                     @ type_name v @ '' found''))"

text \<open>\<open>",".join(v)\<close>: a list of strings, the characters of a string, the keys of a dict.\<close>

fun comma_join :: "json \<Rightarrow> exc + string" where
  "comma_join (JList xs) =
     (case str_items 0 xs of Inl e \<Rightarrow> Inl e | Inr ss \<Rightarrow> Inr (join_str '','' ss))"
| "comma_join (JStr s) = Inr (join_str '','' (map (\<lambda>c. [c]) s))"
| "comma_join (JObj d) = Inr (join_str '','' (map fst d))"
| "comma_join v = Inl (TypeError ''can only join an iterable'')"

text \<open>\<open>str(e)\<close>: a \<open>KeyError\<close> prints the repr of its key, the others their message.\<close>

fun str_exc :: "exc \<Rightarrow> string" where
  "str_exc (KeyError k) = quote @ k @ quote"
| "str_exc (TypeError m) = m"
| "str_exc (ValueError m) = m"
| "str_exc (HTTPStatusError m r) = m"
| "str_exc (RequestError m) = m"
| "str_exc (JSONDecodeError m) = m"

text \<open>Reading the argument map: a value as the HTTP library will serialise it,
  \<open>params[k]\<close> and \<open>params.get(k, default)\<close>.\<close>

fun snapshot :: "state \<Rightarrow> pyval \<Rightarrow> json" where
  "snapshot s PNone = JNull"
| "snapshot s (PBool b) = JBool b"
| "snapshot s (PInt i) = JInt i"
| "snapshot s (PStr x) = JStr x"
| "snapshot s (PList xs) = JList xs"
| "snapshot s (PDict a) = JObj (heap s a)"

definition subscript :: "pydict \<Rightarrow> string \<Rightarrow> exc + pyval" where
  "subscript params k = (case map_of params k of None \<Rightarrow> Inl (KeyError k) | Some v \<Rightarrow> Inr v)"

definition get_default :: "pydict \<Rightarrow> string \<Rightarrow> pyval \<Rightarrow> pyval" where
  "get_default params k d = (case map_of params k of None \<Rightarrow> d | Some v \<Rightarrow> v)"

text \<open>\<open>target[k] = v\<close>: only a dict takes an item under a string key.\<close>

fun setitem :: "pyval \<Rightarrow> string \<Rightarrow> pyval \<Rightarrow> state \<Rightarrow> exc + state" where
  "setitem (PDict a) k v s =
     Inr (s\<lparr>heap := (heap s)(a := AList.update k (snapshot s v) (heap s a))\<rparr>)"
| "setitem (PList xs) k v s = Inl (TypeError ''list indices must be integers or slices, not str'')"
| "setitem t k v s =
     Inl (TypeError (quote @ type_name (snapshot s t) @ quote
                     @ '' object does not support item assignment''))"

text \<open>A fresh empty dict \<open>{}\<close>.\<close>

definition new_dict :: "state \<Rightarrow> pyval \<times> state" where
  "new_dict s = (PDict (lim s), s\<lparr>heap := (heap s)(lim s := []), lim := Suc (lim s)\<rparr>)"

section \<open>HubSpotConfig and HubSpotClient\<close>

record HubSpotConfig =
  api_key :: "string option"
  access_token :: "string option"
  api_base_url :: string

text \<open>\<open>if self.config.access_token:\<close> on an optional string: \<open>None\<close> and the empty string
  are false.\<close>

fun is_set :: "string option \<Rightarrow> bool" where
  "is_set None = False"
| "is_set (Some x) = (x \<noteq> [])"

text \<open>An optional string inside an f-string, and as a JSON value.\<close>

fun format_opt :: "string option \<Rightarrow> string" where
  "format_opt None = ''None''"
| "format_opt (Some x) = x"

fun json_opt :: "string option \<Rightarrow> json" where
  "json_opt None = JNull"
| "json_opt (Some x) = JStr x"

definition get_headers :: "HubSpotConfig \<Rightarrow> (string \<times> string) list" where
  "get_headers cfg =
     (let headers = [(''Content-Type'', ''application/json'')] in
      if is_set (access_token cfg)
      then AList.update ''Authorization'' (''Bearer '' @ format_opt (access_token cfg)) headers
      else if is_set (api_key cfg)
      then AList.update ''Authorization'' (''Bearer '' @ format_opt (api_key cfg)) headers
      else headers)"

record HubSpotClient =
  config :: HubSpotConfig
  base_url :: string
  headers :: "(string \<times> string) list"

definition HubSpotClient_init :: "HubSpotConfig \<Rightarrow> HubSpotClient" where
  "HubSpotClient_init cfg =
     \<lparr>config = cfg, base_url = api_base_url cfg, headers = get_headers cfg\<rparr>"

text \<open>\<open>raise_for_status\<close> of the HTTP library raises unless the status is 2xx.\<close>

definition is_success :: "response \<Rightarrow> bool" where
  "is_success r = (200 \<le> status_code r \<and> status_code r \<le> 299)"

definition log_line :: "string \<Rightarrow> state \<Rightarrow> state" where
  "log_line l s = s\<lparr>logged := logged s @ [l]\<rparr>"

definition no_content :: json where
  "no_content =
     JObj [(''success'', JBool True), (''message'', JStr ''Operation completed successfully'')]"

text \<open>\<open>params = params or {}; params["hapikey"] = self.config.api_key\<close>, when an API key
  is set and no access token is.\<close>

definition with_api_key ::
  "HubSpotConfig \<Rightarrow> (string \<times> json) list option \<Rightarrow> (string \<times> json) list option" where
  "with_api_key cfg params =
     (if is_set (api_key cfg) \<and> \<not> is_set (access_token cfg)
      then Some (AList.update ''hapikey'' (json_opt (api_key cfg))
                   (case params of None \<Rightarrow> [] | Some p \<Rightarrow> p))
      else params)"

definition request ::
  "HubSpotClient \<Rightarrow> world \<Rightarrow> string \<Rightarrow> string \<Rightarrow> (string \<times> json) list option \<Rightarrow> json option
     \<Rightarrow> state \<Rightarrow> state \<times> (exc + json)" where
  "request c w method endpoint params json_data s =
     (let url = urljoin w (base_url c) endpoint;
          req = \<lparr>req_method = method, req_url = url, req_headers = headers c,
                 req_params = with_api_key (config c) params, req_json = json_data\<rparr>;
          s1 = s\<lparr>sent := sent s @ [req]\<rparr>
      in case exchange w req of
           Failed m \<Rightarrow> (log_line (''Error making request: '' @ m) s1, Inl (RequestError m))
         | Answered r \<Rightarrow>
             if \<not> is_success r
             then (log_line (''HTTP error occurred: '' @ dec (status_code r) @ '' - '' @ text_body r) s1,
                   Inl (HTTPStatusError (status_message w r) r))
             else if status_code r = 204 then (s1, Inr no_content)
             else (case parsed r of
                     Inl m \<Rightarrow> (log_line (''Error making request: '' @ m) s1, Inl (JSONDecodeError m))
                   | Inr v \<Rightarrow> (s1, Inr v)))"

text \<open>\<open>params = {"limit": limit}; if properties: params["properties"] = ",".join(properties)\<close>,
  the first lines of \<open>get_contacts\<close>, \<open>get_companies\<close> and \<open>get_deals\<close>.\<close>

definition list_params :: "json \<Rightarrow> json \<Rightarrow> exc + (string \<times> json) list" where
  "list_params limit properties =
     (let params = [(''limit'', limit)] in
      if truthy properties
      then (case comma_join properties of
              Inl e \<Rightarrow> Inl e
            | Inr joined \<Rightarrow> Inr (AList.update ''properties'' (JStr joined) params))
      else Inr params)"

definition get_contacts ::
  "HubSpotClient \<Rightarrow> world \<Rightarrow> json \<Rightarrow> json \<Rightarrow> state \<Rightarrow> state \<times> (exc + json)" where
  "get_contacts c w limit properties s =
     (case list_params limit properties of
        Inl e \<Rightarrow> (s, Inl e)
      | Inr params \<Rightarrow> request c w ''GET'' ''/crm/v3/objects/contacts'' (Some params) None s)"

definition get_contact ::
  "HubSpotClient \<Rightarrow> world \<Rightarrow> json \<Rightarrow> state \<Rightarrow> state \<times> (exc + json)" where
  "get_contact c w contact_id s =
     request c w ''GET'' (''/crm/v3/objects/contacts/'' @ py_format w contact_id) None None s"

definition create_contact ::
  "HubSpotClient \<Rightarrow> world \<Rightarrow> json \<Rightarrow> state \<Rightarrow> state \<times> (exc + json)" where
  "create_contact c w properties s =
     request c w ''POST'' ''/crm/v3/objects/contacts'' None
       (Some (JObj [(''properties'', properties)])) s"

definition update_contact ::
  "HubSpotClient \<Rightarrow> world \<Rightarrow> json \<Rightarrow> json \<Rightarrow> state \<Rightarrow> state \<times> (exc + json)" where
  "update_contact c w contact_id properties s =
     request c w ''PATCH'' (''/crm/v3/objects/contacts/'' @ py_format w contact_id) None
       (Some (JObj [(''properties'', properties)])) s"

definition delete_contact ::
  "HubSpotClient \<Rightarrow> world \<Rightarrow> json \<Rightarrow> state \<Rightarrow> state \<times> (exc + json)" where
  "delete_contact c w contact_id s =
     request c w ''DELETE'' (''/crm/v3/objects/contacts/'' @ py_format w contact_id) None None s"

definition get_companies ::
  "HubSpotClient \<Rightarrow> world \<Rightarrow> json \<Rightarrow> json \<Rightarrow> state \<Rightarrow> state \<times> (exc + json)" where
  "get_companies c w limit properties s =
     (case list_params limit properties of
        Inl e \<Rightarrow> (s, Inl e)
      | Inr params \<Rightarrow> request c w ''GET'' ''/crm/v3/objects/companies'' (Some params) None s)"

definition get_company ::
  "HubSpotClient \<Rightarrow> world \<Rightarrow> json \<Rightarrow> state \<Rightarrow> state \<times> (exc + json)" where
  "get_company c w company_id s =
     request c w ''GET'' (''/crm/v3/objects/companies/'' @ py_format w company_id) None None s"

definition create_company ::
  "HubSpotClient \<Rightarrow> world \<Rightarrow> json \<Rightarrow> state \<Rightarrow> state \<times> (exc + json)" where
  "create_company c w properties s =
     request c w ''POST'' ''/crm/v3/objects/companies'' None
       (Some (JObj [(''properties'', properties)])) s"

definition update_company ::
  "HubSpotClient \<Rightarrow> world \<Rightarrow> json \<Rightarrow> json \<Rightarrow> state \<Rightarrow> state \<times> (exc + json)" where
  "update_company c w company_id properties s =
     request c w ''PATCH'' (''/crm/v3/objects/companies/'' @ py_format w company_id) None
       (Some (JObj [(''properties'', properties)])) s"

definition get_deals ::
  "HubSpotClient \<Rightarrow> world \<Rightarrow> json \<Rightarrow> json \<Rightarrow> state \<Rightarrow> state \<times> (exc + json)" where
  "get_deals c w limit properties s =
     (case list_params limit properties of
        Inl e \<Rightarrow> (s, Inl e)
      | Inr params \<Rightarrow> request c w ''GET'' ''/crm/v3/objects/deals'' (Some params) None s)"

definition get_deal ::
  "HubSpotClient \<Rightarrow> world \<Rightarrow> json \<Rightarrow> state \<Rightarrow> state \<times> (exc + json)" where
  "get_deal c w deal_id s =
     request c w ''GET'' (''/crm/v3/objects/deals/'' @ py_format w deal_id) None None s"

definition create_deal ::
  "HubSpotClient \<Rightarrow> world \<Rightarrow> json \<Rightarrow> state \<Rightarrow> state \<times> (exc + json)" where
  "create_deal c w properties s =
     request c w ''POST'' ''/crm/v3/objects/deals'' None
       (Some (JObj [(''properties'', properties)])) s"

definition search ::
  "HubSpotClient \<Rightarrow> world \<Rightarrow> json \<Rightarrow> json \<Rightarrow> json \<Rightarrow> state \<Rightarrow> state \<times> (exc + json)" where
  "search c w object_type filters limit s =
     (let json_data = JObj [(''filterGroups'', JList [JObj [(''filters'', filters)]]),
                            (''limit'', limit)]
      in request c w ''POST'' (''/crm/v3/objects/'' @ py_format w object_type @ ''/search'') None
           (Some json_data) s)"

section \<open>MCPServer: the handlers\<close>

type_synonym handler = "world \<Rightarrow> pydict \<Rightarrow> state \<Rightarrow> state \<times> (exc + json)"

definition handle_list_contacts :: "HubSpotClient \<Rightarrow> handler" where
  "handle_list_contacts c w params s =
     (let limit = get_default params ''limit'' (PInt 100);
          properties = get_default params ''properties'' PNone
      in get_contacts c w (snapshot s limit) (snapshot s properties) s)"

definition handle_get_contact :: "HubSpotClient \<Rightarrow> handler" where
  "handle_get_contact c w params s =
     (case subscript params ''contact_id'' of
        Inl e \<Rightarrow> (s, Inl e)
      | Inr contact_id \<Rightarrow> get_contact c w (snapshot s contact_id) s)"

text \<open>\<open>if key in params: properties[key] = params[key]\<close>\<close>

definition copy_field :: "pydict \<Rightarrow> string \<Rightarrow> pyval \<Rightarrow> state \<Rightarrow> exc + state" where
  "copy_field params key properties s =
     (case map_of params key of
        None \<Rightarrow> Inr s
      | Some v \<Rightarrow> setitem properties key v s)"

text \<open>
  \<open>properties = params.get("properties", {})\<close> binds the caller's own object when the
  key is present, and a fresh dict otherwise; the three assignments then write to it.
\<close>

definition handle_create_contact :: "HubSpotClient \<Rightarrow> handler" where
  "handle_create_contact c w params s =
     (let (properties, s0) = (case map_of params ''properties'' of
                                None \<Rightarrow> new_dict s
                              | Some v \<Rightarrow> (v, s))
      in case copy_field params ''email'' properties s0 of
           Inl e \<Rightarrow> (s0, Inl e)
         | Inr s1 \<Rightarrow>
        (case copy_field params ''firstname'' properties s1 of
           Inl e \<Rightarrow> (s1, Inl e)
         | Inr s2 \<Rightarrow>
        (case copy_field params ''lastname'' properties s2 of
           Inl e \<Rightarrow> (s2, Inl e)
         | Inr s3 \<Rightarrow> create_contact c w (snapshot s3 properties) s3)))"

definition handle_update_contact :: "HubSpotClient \<Rightarrow> handler" where
  "handle_update_contact c w params s =
     (case subscript params ''contact_id'' of
        Inl e \<Rightarrow> (s, Inl e)
      | Inr contact_id \<Rightarrow>
     (case subscript params ''properties'' of
        Inl e \<Rightarrow> (s, Inl e)
      | Inr properties \<Rightarrow>
          update_contact c w (snapshot s contact_id) (snapshot s properties) s))"

definition handle_list_companies :: "HubSpotClient \<Rightarrow> handler" where
  "handle_list_companies c w params s =
     (let limit = get_default params ''limit'' (PInt 100)
      in get_companies c w (snapshot s limit) JNull s)"

definition handle_get_company :: "HubSpotClient \<Rightarrow> handler" where
  "handle_get_company c w params s =
     (case subscript params ''company_id'' of
        Inl e \<Rightarrow> (s, Inl e)
      | Inr company_id \<Rightarrow> get_company c w (snapshot s company_id) s)"

definition handle_create_company :: "HubSpotClient \<Rightarrow> handler" where
  "handle_create_company c w params s =
     (let (properties, s0) = (case map_of params ''properties'' of
                                None \<Rightarrow> new_dict s
                              | Some v \<Rightarrow> (v, s))
      in case copy_field params ''name'' properties s0 of
           Inl e \<Rightarrow> (s0, Inl e)
         | Inr s1 \<Rightarrow> create_company c w (snapshot s1 properties) s1)"

definition handle_list_deals :: "HubSpotClient \<Rightarrow> handler" where
  "handle_list_deals c w params s =
     (let limit = get_default params ''limit'' (PInt 100)
      in get_deals c w (snapshot s limit) JNull s)"

definition handle_search :: "HubSpotClient \<Rightarrow> handler" where
  "handle_search c w params s =
     (case subscript params ''object_type'' of
        Inl e \<Rightarrow> (s, Inl e)
      | Inr object_type \<Rightarrow>
     (case subscript params ''property'' of
        Inl e \<Rightarrow> (s, Inl e)
      | Inr property \<Rightarrow>
     (let operator = get_default params ''operator'' (PStr ''EQ'') in
      case subscript params ''value'' of
        Inl e \<Rightarrow> (s, Inl e)
      | Inr val \<Rightarrow>
     (let filters = JList [JObj [(''propertyName'', snapshot s property),
                                 (''operator'', snapshot s operator),
                                 (''value'', snapshot s val)]];
          limit = get_default params ''limit'' (PInt 100)
      in search c w (snapshot s object_type) filters (snapshot s limit) s))))"

section \<open>MCPServer: the registry\<close>

record tool =
  description :: string
  parameters :: json
  handler :: handler

definition register_tools :: "HubSpotClient \<Rightarrow> (string \<times> tool) list" where
  "register_tools c =
   [(''list_contacts'',
     \<lparr>description = ''List contacts from HubSpot CRM'',
      parameters = JObj
        [(''type'', JStr ''object''),
         (''properties'', JObj
           [(''limit'', JObj
              [(''type'', JStr ''integer''),
               (''description'', JStr ''Maximum number of contacts to retrieve''),
               (''default'', JInt 100)]),
            (''properties'', JObj
              [(''type'', JStr ''array''),
               (''items'', JObj [(''type'', JStr ''string'')]),
               (''description'', JStr ''List of properties to retrieve for each contact'')])])],
      handler = handle_list_contacts c\<rparr>),
    (''get_contact'',
     \<lparr>description = ''Get a specific contact by ID'',
      parameters = JObj
        [(''type'', JStr ''object''),
         (''properties'', JObj
           [(''contact_id'', JObj
              [(''type'', JStr ''string''),
               (''description'', JStr ''The ID of the contact to retrieve'')])]),
         (''required'', JList [JStr ''contact_id''])],
      handler = handle_get_contact c\<rparr>),
    (''create_contact'',
     \<lparr>description = ''Create a new contact in HubSpot'',
      parameters = JObj
        [(''type'', JStr ''object''),
         (''properties'', JObj
           [(''email'', JObj
              [(''type'', JStr ''string''),
               (''description'', JStr ''Email address of the contact'')]),
            (''firstname'', JObj
              [(''type'', JStr ''string''),
               (''description'', JStr ''First name of the contact'')]),
            (''lastname'', JObj
              [(''type'', JStr ''string''),
               (''description'', JStr ''Last name of the contact'')]),
            (''properties'', JObj
              [(''type'', JStr ''object''),
               (''description'', JStr ''Additional properties for the contact'')])]),
         (''required'', JList [JStr ''email''])],
      handler = handle_create_contact c\<rparr>),
    (''update_contact'',
     \<lparr>description = ''Update an existing contact'',
      parameters = JObj
        [(''type'', JStr ''object''),
         (''properties'', JObj
           [(''contact_id'', JObj
              [(''type'', JStr ''string''),
               (''description'', JStr ''The ID of the contact to update'')]),
            (''properties'', JObj
              [(''type'', JStr ''object''),
               (''description'', JStr ''Properties to update'')])]),
         (''required'', JList [JStr ''contact_id'', JStr ''properties''])],
      handler = handle_update_contact c\<rparr>),
    (''list_companies'',
     \<lparr>description = ''List companies from HubSpot CRM'',
      parameters = JObj
        [(''type'', JStr ''object''),
         (''properties'', JObj
           [(''limit'', JObj
              [(''type'', JStr ''integer''),
               (''description'', JStr ''Maximum number of companies to retrieve''),
               (''default'', JInt 100)])])],
      handler = handle_list_companies c\<rparr>),
    (''get_company'',
     \<lparr>description = ''Get a specific company by ID'',
      parameters = JObj
        [(''type'', JStr ''object''),
         (''properties'', JObj
           [(''company_id'', JObj
              [(''type'', JStr ''string''),
               (''description'', JStr ''The ID of the company to retrieve'')])]),
         (''required'', JList [JStr ''company_id''])],
      handler = handle_get_company c\<rparr>),
    (''create_company'',
     \<lparr>description = ''Create a new company in HubSpot'',
      parameters = JObj
        [(''type'', JStr ''object''),
         (''properties'', JObj
           [(''name'', JObj
              [(''type'', JStr ''string''),
               (''description'', JStr ''Name of the company'')]),
            (''properties'', JObj
              [(''type'', JStr ''object''),
               (''description'', JStr ''Additional properties for the company'')])]),
         (''required'', JList [JStr ''name''])],
      handler = handle_create_company c\<rparr>),
    (''list_deals'',
     \<lparr>description = ''List deals from HubSpot CRM'',
      parameters = JObj
        [(''type'', JStr ''object''),
         (''properties'', JObj
           [(''limit'', JObj
              [(''type'', JStr ''integer''),
               (''description'', JStr ''Maximum number of deals to retrieve''),
               (''default'', JInt 100)])])],
      handler = handle_list_deals c\<rparr>),
    (''search'',
     \<lparr>description = ''Search for objects in HubSpot CRM'',
      parameters = JObj
        [(''type'', JStr ''object''),
         (''properties'', JObj
           [(''object_type'', JObj
              [(''type'', JStr ''string''),
               (''description'', JStr ''Type of object to search (contacts, companies, deals)''),
               (''enum'', JList [JStr ''contacts'', JStr ''companies'', JStr ''deals''])]),
            (''property'', JObj
              [(''type'', JStr ''string''),
               (''description'', JStr ''Property to search on'')]),
            (''value'', JObj
              [(''type'', JStr ''string''),
               (''description'', JStr ''Value to search for'')]),
            (''operator'', JObj
              [(''type'', JStr ''string''),
               (''description'', JStr ''Search operator''),
               (''default'', JStr ''EQ''),
               (''enum'', JList [JStr ''EQ'', JStr ''NEQ'', JStr ''LT'', JStr ''LTE'', JStr ''GT'',
                                 JStr ''GTE'', JStr ''CONTAINS''])])]),
         (''required'', JList [JStr ''object_type'', JStr ''property'', JStr ''value''])],
      handler = handle_search c\<rparr>)]"

text \<open>\<open>HubSpotConfig()\<close> reads the environment; the configuration it finds is the
  argument here.\<close>

record MCPServer =
  server_config :: HubSpotConfig
  server_client :: HubSpotClient
  tools :: "(string \<times> tool) list"

definition MCPServer_init :: "HubSpotConfig \<Rightarrow> MCPServer" where
  "MCPServer_init cfg =
     (let c = HubSpotClient_init cfg
      in \<lparr>server_config = cfg, server_client = c, tools = register_tools c\<rparr>)"

section \<open>MCPServer: the dispatcher\<close>

definition success_envelope :: "json \<Rightarrow> json" where
  "success_envelope result = JObj [(''success'', JBool True), (''result'', result)]"

definition failure_envelope :: "string \<Rightarrow> json" where
  "failure_envelope message = JObj [(''success'', JBool False), (''error'', JStr message)]"

text \<open>The result \<open>Inl e\<close> is the exception \<open>e\<close> raised to the caller, \<open>Inr v\<close> is the
  value \<open>v\<close> returned.\<close>

definition handle_tool_call ::
  "MCPServer \<Rightarrow> world \<Rightarrow> string \<Rightarrow> pydict \<Rightarrow> state \<Rightarrow> state \<times> (exc + json)" where
  "handle_tool_call srv w tool_name params s =
     (case map_of (tools srv) tool_name of
        None \<Rightarrow> (s, Inl (ValueError (''Unknown tool: '' @ tool_name)))
      | Some t \<Rightarrow>
          (case handler t w params s of
             (s', Inr result) \<Rightarrow> (s', Inr (success_envelope result))
           | (s', Inl e) \<Rightarrow>
               (log_line (''Error handling tool call '' @ tool_name @ '': '' @ str_exc e) s',
                Inr (failure_envelope (str_exc e)))))"

definition get_available_tools :: "MCPServer \<Rightarrow> json list" where
  "get_available_tools srv =
     map (\<lambda>(name, t). JObj [(''name'', JStr name),
                            (''description'', JStr (description t)),
                            (''parameters'', parameters t)])
       (tools srv)"

section \<open>Vocabulary of the statements\<close>

text \<open>The requests handed to the HTTP library between an earlier and a later state.\<close>

definition issued :: "state \<Rightarrow> state \<Rightarrow> http_request list" where
  "issued s s' = drop (length (sent s)) (sent s')"

definition header :: "http_request \<Rightarrow> string \<Rightarrow> string option" where
  "header req k = map_of (req_headers req) k"

definition query :: "http_request \<Rightarrow> string \<Rightarrow> json option" where
  "query req k = (case req_params req of None \<Rightarrow> None | Some p \<Rightarrow> map_of p k)"

text \<open>A field of the JSON body of a request.\<close>

definition body_field :: "http_request \<Rightarrow> string \<Rightarrow> json option" where
  "body_field req k = (case req_json req of Some (JObj d) \<Rightarrow> map_of d k | _ \<Rightarrow> None)"

text \<open>\<open>required\<close> and the names under \<open>properties\<close> of a parameter schema.\<close>

fun str_values :: "json list \<Rightarrow> string list" where
  "str_values [] = []"
| "str_values (JStr k # vs) = k # str_values vs"
| "str_values (v # vs) = str_values vs"

definition required_keys :: "tool \<Rightarrow> string list" where
  "required_keys t =
     (case parameters t of
        JObj d \<Rightarrow> (case map_of d ''required'' of Some (JList ks) \<Rightarrow> str_values ks | _ \<Rightarrow> [])
      | _ \<Rightarrow> [])"

definition declared_keys :: "tool \<Rightarrow> string list" where
  "declared_keys t =
     (case parameters t of
        JObj d \<Rightarrow> (case map_of d ''properties'' of Some (JObj ps) \<Rightarrow> map fst ps | _ \<Rightarrow> [])
      | _ \<Rightarrow> [])"

text \<open>
  A handler dereferences a key without a default when every call whose argument map
  lacks the key ends in the lookup error, before anything is sent.
\<close>

definition demands :: "handler \<Rightarrow> string \<Rightarrow> bool" where
  "demands h k =
     (\<forall>w params s. map_of params k = None \<longrightarrow>
        (\<exists>k'. snd (h w params s) = Inl (KeyError k')) \<and> sent (fst (h w params s)) = sent s)"

text \<open>A failure raised by the handler itself, before it reaches the transport.\<close>

fun local_failure :: "exc \<Rightarrow> bool" where
  "local_failure (KeyError k) = True"
| "local_failure (TypeError m) = True"
| "local_failure e = False"

text \<open>The request-issuing methods of \<open>HubSpotClient\<close>, as one type of calls.\<close>

datatype call =
    GetContacts json json
  | GetContact json
  | CreateContact json
  | UpdateContact json json
  | DeleteContact json
  | GetCompanies json json
  | GetCompany json
  | CreateCompany json
  | UpdateCompany json json
  | GetDeals json json
  | GetDeal json
  | CreateDeal json
  | Search json json json

fun perform :: "HubSpotClient \<Rightarrow> world \<Rightarrow> call \<Rightarrow> state \<Rightarrow> state \<times> (exc + json)" where
  "perform c w (GetContacts limit properties) s = get_contacts c w limit properties s"
| "perform c w (GetContact i) s = get_contact c w i s"
| "perform c w (CreateContact properties) s = create_contact c w properties s"
| "perform c w (UpdateContact i properties) s = update_contact c w i properties s"
| "perform c w (DeleteContact i) s = delete_contact c w i s"
| "perform c w (GetCompanies limit properties) s = get_companies c w limit properties s"
| "perform c w (GetCompany i) s = get_company c w i s"
| "perform c w (CreateCompany properties) s = create_company c w properties s"
| "perform c w (UpdateCompany i properties) s = update_company c w i properties s"
| "perform c w (GetDeals limit properties) s = get_deals c w limit properties s"
| "perform c w (GetDeal i) s = get_deal c w i s"
| "perform c w (CreateDeal properties) s = create_deal c w properties s"
| "perform c w (Search object_type filters limit) s = search c w object_type filters limit s"

text \<open>The dict objects an argument map holds; a decoded JSON document holds none of them
  twice.\<close>

fun refs :: "pydict \<Rightarrow> addr list" where
  "refs [] = []"
| "refs ((k, PDict a) # ps) = a # refs ps"
| "refs (p # ps) = refs ps"

text \<open>\<open>if key in params: d[key] = params[key]\<close> on the value of a dict.\<close>

definition merge_field :: "pydict \<Rightarrow> state \<Rightarrow> string \<Rightarrow> (string \<times> json) list \<Rightarrow> (string \<times> json) list" where
  "merge_field params s key d =
     (case map_of params key of None \<Rightarrow> d | Some v \<Rightarrow> AList.update key (snapshot s v) d)"

text \<open>The value a call gives a shorthand field of \<open>create_contact\<close>, if it gives one.\<close>

definition shorthand :: "pydict \<Rightarrow> state \<Rightarrow> string \<Rightarrow> json option" where
  "shorthand params s k =
     (if k = ''email'' \<or> k = ''firstname'' \<or> k = ''lastname''
      then map_option (snapshot s) (map_of params k)
      else None)"

text \<open>\<open>needle in haystack\<close> on strings.\<close>

fun starts_with :: "string \<Rightarrow> string \<Rightarrow> bool" where
  "starts_with xs [] = True"
| "starts_with [] (y # ys) = False"
| "starts_with (x # xs) (y # ys) = (x = y \<and> starts_with xs ys)"

fun contains :: "string \<Rightarrow> string \<Rightarrow> bool" where
  "contains [] needle = (needle = [])"
| "contains (x # xs) needle = (starts_with (x # xs) needle \<or> contains xs needle)"

text \<open>
  What a handler call that started in state \<open>s\<close> can come to: a failure of its own with
  nothing sent, or the result of one call of \<open>request\<close>.
\<close>

definition outcome_ok :: "HubSpotClient \<Rightarrow> world \<Rightarrow> state \<Rightarrow> state \<times> (exc + json) \<Rightarrow> bool" where
  "outcome_ok c w s res =
     ((\<exists>e s0. res = (s0, Inl e) \<and> local_failure e \<and> sent s0 = sent s) \<or>
      (\<exists>m e p j s0. res = request c w m e p j s0 \<and> sent s0 = sent s))"

section \<open>Sample configurations, states and worlds\<close>

definition cfg_api_key :: HubSpotConfig where
  "cfg_api_key = \<lparr>api_key = Some ''test_key'', access_token = None,
                   api_base_url = ''https://api.hubapi.com''\<rparr>"

definition cfg_token :: HubSpotConfig where
  "cfg_token = \<lparr>api_key = None, access_token = Some ''test_token'',
                 api_base_url = ''https://api.hubapi.com''\<rparr>"

definition cfg_both :: HubSpotConfig where
  "cfg_both = \<lparr>api_key = Some ''test_key'', access_token = Some ''test_token'',
                api_base_url = ''https://api.hubapi.com''\<rparr>"

definition state0 :: state where
  "state0 = \<lparr>heap = (\<lambda>a. []), lim = 0, sent = [], logged = []\<rparr>"

text \<open>A caller that holds one dict object, \<open>{"email": "old@b.com", "lastname": "Y"}\<close>.\<close>

definition state1 :: state where
  "state1 = \<lparr>heap = (\<lambda>a. [])(0 := [(''email'', JStr ''old@b.com''), (''lastname'', JStr ''Y'')]),
              lim = 1, sent = [], logged = []\<rparr>"

text \<open>
  The message the HTTP library gives the exception of \<open>raise_for_status\<close> for a server
  error: the status line, the URL and a link to the documentation of the status.
\<close>

definition server_error_message :: "response \<Rightarrow> string" where
  "server_error_message r =
     ''Server error '' @ quote @ dec (status_code r) @ '' Internal Server Error'' @ quote
     @ '' for url '' @ quote @ ''https://api.hubapi.com/crm/v3/objects/contacts/1'' @ quote
     @ [CHR 0x0A] @ ''For more information check: ''
     @ ''https://developer.mozilla.org/en-US/docs/Web/HTTP/Status/'' @ dec (status_code r)"

text \<open>A world in which every request gets the same reply.\<close>

definition answering :: "reply \<Rightarrow> world" where
  "answering r = \<lparr>urljoin = (\<lambda>base endpoint. base @ endpoint), exchange = (\<lambda>req. r),
                   status_message = server_error_message, py_repr = (\<lambda>v. [])\<rparr>"

definition created :: response where
  "created = \<lparr>status_code = 201, text_body = ''{}'', parsed = Inr (JObj [])\<rparr>"

definition deleted :: response where
  "deleted = \<lparr>status_code = 204, text_body = [], parsed = Inl ''Expecting value''\<rparr>"

definition failed_500 :: response where
  "failed_500 = \<lparr>status_code = 500, text_body = ''boom'', parsed = Inl ''Expecting value''\<rparr>"

section \<open>The registry, entry by entry\<close>

lemma tools_init: "tools (MCPServer_init cfg) = register_tools (HubSpotClient_init cfg)"
  by (simp add: MCPServer_init_def Let_def)

lemma registered_cases:
  assumes "map_of (register_tools c) name = Some t"
  shows "(name = ''list_contacts'' \<and> handler t = handle_list_contacts c \<and> required_keys t = []) \<or>
         (name = ''get_contact'' \<and> handler t = handle_get_contact c
            \<and> required_keys t = [''contact_id'']) \<or>
         (name = ''create_contact'' \<and> handler t = handle_create_contact c
            \<and> required_keys t = [''email'']) \<or>
         (name = ''update_contact'' \<and> handler t = handle_update_contact c
            \<and> required_keys t = [''contact_id'', ''properties'']) \<or>
         (name = ''list_companies'' \<and> handler t = handle_list_companies c \<and> required_keys t = []) \<or>
         (name = ''get_company'' \<and> handler t = handle_get_company c
            \<and> required_keys t = [''company_id'']) \<or>
         (name = ''create_company'' \<and> handler t = handle_create_company c
            \<and> required_keys t = [''name'']) \<or>
         (name = ''list_deals'' \<and> handler t = handle_list_deals c \<and> required_keys t = []) \<or>
         (name = ''search'' \<and> handler t = handle_search c
            \<and> required_keys t = [''object_type'', ''property'', ''value''])"
  using assms unfolding register_tools_def
  by (auto simp add: required_keys_def split: if_splits)

lemma server_handlers:
  "map_option handler (map_of (tools (MCPServer_init cfg)) ''list_contacts'')
     = Some (handle_list_contacts (HubSpotClient_init cfg))"
  "map_option handler (map_of (tools (MCPServer_init cfg)) ''get_contact'')
     = Some (handle_get_contact (HubSpotClient_init cfg))"
  "map_option handler (map_of (tools (MCPServer_init cfg)) ''create_contact'')
     = Some (handle_create_contact (HubSpotClient_init cfg))"
  "map_option handler (map_of (tools (MCPServer_init cfg)) ''update_contact'')
     = Some (handle_update_contact (HubSpotClient_init cfg))"
  "map_option handler (map_of (tools (MCPServer_init cfg)) ''list_companies'')
     = Some (handle_list_companies (HubSpotClient_init cfg))"
  "map_option handler (map_of (tools (MCPServer_init cfg)) ''get_company'')
     = Some (handle_get_company (HubSpotClient_init cfg))"
  "map_option handler (map_of (tools (MCPServer_init cfg)) ''create_company'')
     = Some (handle_create_company (HubSpotClient_init cfg))"
  "map_option handler (map_of (tools (MCPServer_init cfg)) ''list_deals'')
     = Some (handle_list_deals (HubSpotClient_init cfg))"
  "map_option handler (map_of (tools (MCPServer_init cfg)) ''search'')
     = Some (handle_search (HubSpotClient_init cfg))"
  by (simp_all add: tools_init register_tools_def)

section \<open>The transport and the dispatcher, step by step\<close>

lemma request_sent:
  "sent (fst (request c w m e p j s)) =
     sent s @ [\<lparr>req_method = m, req_url = urljoin w (base_url c) e, req_headers = headers c,
                req_params = with_api_key (config c) p, req_json = j\<rparr>]"
  by (simp add: request_def Let_def log_line_def split: reply.splits sum.splits)

lemma request_heap: "heap (fst (request c w m e p j s)) = heap s"
  by (simp add: request_def Let_def log_line_def split: reply.splits sum.splits)

lemma request_lim: "lim (fst (request c w m e p j s)) = lim s"
  by (simp add: request_def Let_def log_line_def split: reply.splits sum.splits)

lemma dispatch_state:
  assumes "map_of (tools srv) n = Some t"
  shows "sent (fst (handle_tool_call srv w n p s)) = sent (fst (handler t w p s))"
    and "heap (fst (handle_tool_call srv w n p s)) = heap (fst (handler t w p s))"
    and "lim (fst (handle_tool_call srv w n p s)) = lim (fst (handler t w p s))"
  using assms
  by (cases "handler t w p s"; cases "snd (handler t w p s)";
      simp add: handle_tool_call_def log_line_def)+

lemma dispatch_issued:
  assumes "map_option handler (map_of (tools srv) n) = Some h"
  shows "issued s (fst (handle_tool_call srv w n p s)) = issued s (fst (h w p s))"
    and "heap (fst (handle_tool_call srv w n p s)) = heap (fst (h w p s))"
  using assms dispatch_state [of srv n _ w p s] by (auto simp add: issued_def)

section \<open>The dispatcher\<close>

text \<open>
  C1. For a registered tool name and any argument map, \<open>handle_tool_call\<close> returns a
  value, never raises: \<open>{"success": true, "result": v}\<close> when the handler returns \<open>v\<close>,
  and \<open>{"success": false, "error": str(e)}\<close> when the handler raises \<open>e\<close>, whichever
  exception \<open>e\<close> is.
\<close>

theorem envelope_shape:
  assumes "map_of (tools srv) tool_name = Some t"
  shows "(\<exists>v. snd (handler t w params s) = Inr v \<and>
               snd (handle_tool_call srv w tool_name params s)
                 = Inr (JObj [(''success'', JBool True), (''result'', v)])) \<or>
         (\<exists>e. snd (handler t w params s) = Inl e \<and>
               snd (handle_tool_call srv w tool_name params s)
                 = Inr (JObj [(''success'', JBool False), (''error'', JStr (str_exc e))]))"
proof (cases "handler t w params s")
  case (Pair s' r)
  then show ?thesis
    using assms
    by (cases r) (simp_all add: handle_tool_call_def success_envelope_def failure_envelope_def)
qed

theorem envelope_shape_witness:
  "snd (handle_tool_call (MCPServer_init cfg_api_key) (answering (Answered created))
          ''get_contact'' [] state0)
     = Inr (JObj [(''success'', JBool False), (''error'', JStr (quote @ ''contact_id'' @ quote))])
   \<and> snd (handle_tool_call (MCPServer_init cfg_api_key) (answering (Answered created))
          ''get_contact'' [(''contact_id'', PStr ''1'')] state0)
     = Inr (JObj [(''success'', JBool True), (''result'', JObj [])])"
proof -
  let ?c = "HubSpotClient_init cfg_api_key"
  let ?w = "answering (Answered created)"
  obtain t where h: "map_of (tools (MCPServer_init cfg_api_key)) ''get_contact'' = Some t"
    by (simp add: tools_init register_tools_def)
  then have t: "handler t = handle_get_contact ?c"
    using registered_cases [of ?c "''get_contact''" t] by (simp add: tools_init)
  have a: "snd (handler t ?w [] state0) = Inl (KeyError ''contact_id'')"
    using t by (simp add: handle_get_contact_def subscript_def)
  have b: "snd (handler t ?w [(''contact_id'', PStr ''1'')] state0) = Inr (JObj [])"
    using t
    by (simp add: handle_get_contact_def subscript_def get_contact_def request_def
        answering_def created_def is_success_def)
  show ?thesis
    using envelope_shape [OF h, of ?w "[]" state0] a
      envelope_shape [OF h, of ?w "[(''contact_id'', PStr ''1'')]" state0] b
    by auto
qed

text \<open>
  C3. For a tool name that is not in the registry, \<open>handle_tool_call\<close> raises
  \<open>ValueError("Unknown tool: <name>")\<close> to its caller: no envelope is built, nothing is
  sent, logged or written.
\<close>

theorem unknown_tool_raises:
  assumes "map_of (tools srv) tool_name = None"
  shows "handle_tool_call srv w tool_name params s =
           (s, Inl (ValueError (''Unknown tool: '' @ tool_name)))"
  using assms by (simp add: handle_tool_call_def)

theorem unknown_tool_raises_witness:
  "map_of (tools (MCPServer_init cfg_api_key)) ''unknown_tool'' = None \<and>
   handle_tool_call (MCPServer_init cfg_api_key) (answering (Answered created))
       ''unknown_tool'' [] state0
     = (state0, Inl (ValueError ''Unknown tool: unknown_tool''))"
proof -
  have h: "map_of (tools (MCPServer_init cfg_api_key)) ''unknown_tool'' = None"
    by (simp add: tools_init register_tools_def)
  show ?thesis
    using h unknown_tool_raises [OF h, of "answering (Answered created)" "[]" state0] by simp
qed

section \<open>Request bodies\<close>

text \<open>
  C6. \<open>search\<close> issues one POST whose body is \<open>{"filterGroups": [{"filters": filters}],
  "limit": limit}\<close>, with the filters as supplied, in one group. The \<open>search\<close> tool,
  called with \<open>object_type\<close>, \<open>property\<close> and \<open>value\<close>, passes exactly one filter
  \<open>{propertyName, operator, value}\<close>, the operator being \<open>"EQ"\<close> when none is given.
\<close>

theorem search_body:
  "map (\<lambda>r. (req_method r, req_json r))
     (issued s (fst (search c w object_type filters limit s)))
     = [(''POST'', Some (JObj [(''filterGroups'', JList [JObj [(''filters'', filters)]]),
                              (''limit'', limit)]))]
   \<and> (map_of params ''object_type'' = Some ot \<and> map_of params ''property'' = Some p
        \<and> map_of params ''value'' = Some v \<longrightarrow>
         map (\<lambda>r. (req_method r, req_json r))
           (issued s (fst (handle_tool_call (MCPServer_init cfg) w ''search'' params s)))
           = [(''POST'', Some (JObj
               [(''filterGroups'', JList [JObj [(''filters'', JList [JObj
                  [(''propertyName'', snapshot s p),
                   (''operator'', snapshot s (get_default params ''operator'' (PStr ''EQ''))),
                   (''value'', snapshot s v)]])]]),
                (''limit'', snapshot s (get_default params ''limit'' (PInt 100)))]))])"
proof -
  have d: "issued s (fst (handle_tool_call (MCPServer_init cfg) w ''search'' params s))
             = issued s (fst (handle_search (HubSpotClient_init cfg) w params s))"
    by (rule dispatch_issued [OF server_handlers(9)])
  show ?thesis
    unfolding d
    by (simp add: handle_search_def subscript_def search_def issued_def request_sent)
qed

theorem search_body_witness:
  "map (\<lambda>r. (req_method r, req_json r))
     (issued state0 (fst (handle_tool_call (MCPServer_init cfg_token) (answering (Answered created))
        ''search''
        [(''object_type'', PStr ''contacts''), (''property'', PStr ''email''),
         (''value'', PStr ''a@b.com''), (''limit'', PInt 10)] state0)))
     = [(''POST'', Some (JObj
          [(''filterGroups'', JList [JObj [(''filters'', JList [JObj
             [(''propertyName'', JStr ''email''), (''operator'', JStr ''EQ''),
              (''value'', JStr ''a@b.com'')]])]]),
           (''limit'', JInt 10)]))]"
  using search_body [where params = "[(''object_type'', PStr ''contacts''),
         (''property'', PStr ''email''), (''value'', PStr ''a@b.com''), (''limit'', PInt 10)]"
       and ot = "PStr ''contacts''" and p = "PStr ''email''" and v = "PStr ''a@b.com''"
       and s = state0 and cfg = cfg_token and w = "answering (Answered created)"
       and c = "HubSpotClient_init cfg_token" and object_type = JNull and filters = JNull
       and limit = JNull]
  by (simp add: get_default_def)

text \<open>
  C10. The \<open>search\<close> handler reads \<open>limit\<close> from the argument map and sends it in the
  body, 100 when the key is absent; the parameter schema of the \<open>search\<close> tool declares
  \<open>object_type\<close>, \<open>property\<close>, \<open>value\<close> and \<open>operator\<close>, and no \<open>limit\<close>.
\<close>

theorem search_limit:
  assumes "map_of params ''object_type'' = Some ot"
    and "map_of params ''property'' = Some p"
    and "map_of params ''value'' = Some v"
  shows "map (\<lambda>r. body_field r ''limit'')
           (issued s (fst (handle_tool_call (MCPServer_init cfg) w ''search'' params s)))
           = [Some (case map_of params ''limit'' of None \<Rightarrow> JInt 100 | Some l \<Rightarrow> snapshot s l)]
       \<and> map_option declared_keys (map_of (tools (MCPServer_init cfg)) ''search'')
           = Some [''object_type'', ''property'', ''value'', ''operator'']"
proof -
  have d: "issued s (fst (handle_tool_call (MCPServer_init cfg) w ''search'' params s))
             = issued s (fst (handle_search (HubSpotClient_init cfg) w params s))"
    by (rule dispatch_issued [OF server_handlers(9)])
  have k: "map_option declared_keys (map_of (tools (MCPServer_init cfg)) ''search'')
           = Some [''object_type'', ''property'', ''value'', ''operator'']"
    by (simp add: tools_init register_tools_def declared_keys_def)
  show ?thesis
    unfolding d using assms k
    by (simp add: handle_search_def subscript_def search_def issued_def request_sent body_field_def
        get_default_def split: option.splits)
qed

theorem search_limit_witness:
  "map (\<lambda>r. body_field r ''limit'')
     (issued state0 (fst (handle_tool_call (MCPServer_init cfg_token) (answering (Answered created))
        ''search''
        [(''object_type'', PStr ''contacts''), (''property'', PStr ''email''),
         (''value'', PStr ''a@b.com''), (''limit'', PInt 7)] state0)))
     = [Some (JInt 7)]
   \<and> map (\<lambda>r. body_field r ''limit'')
     (issued state0 (fst (handle_tool_call (MCPServer_init cfg_token) (answering (Answered created))
        ''search''
        [(''object_type'', PStr ''contacts''), (''property'', PStr ''email''),
         (''value'', PStr ''a@b.com'')] state0)))
     = [Some (JInt 100)]"
  using search_limit [where params = "[(''object_type'', PStr ''contacts''),
         (''property'', PStr ''email''), (''value'', PStr ''a@b.com''), (''limit'', PInt 7)]"
       and ot = "PStr ''contacts''" and p = "PStr ''email''" and v = "PStr ''a@b.com''"
       and s = state0 and cfg = cfg_token and w = "answering (Answered created)"]
    search_limit [where params = "[(''object_type'', PStr ''contacts''),
         (''property'', PStr ''email''), (''value'', PStr ''a@b.com'')]"
       and ot = "PStr ''contacts''" and p = "PStr ''email''" and v = "PStr ''a@b.com''"
       and s = state0 and cfg = cfg_token and w = "answering (Answered created)"]
  by simp

section \<open>Authentication\<close>

lemma list_params_keys:
  assumes "list_params limit properties = Inr q"
  shows "map_of q ''hapikey'' = None"
  using assms
  by (auto simp add: list_params_def Let_def split: if_splits sum.splits)

lemma perform_cases:
  "(sent (fst (perform c w call s)) = sent s) \<or>
   (\<exists>m e p j. sent (fst (perform c w call s)) =
       sent s @ [\<lparr>req_method = m, req_url = urljoin w (base_url c) e, req_headers = headers c,
                  req_params = with_api_key (config c) p, req_json = j\<rparr>]
       \<and> (case p of None \<Rightarrow> True | Some q \<Rightarrow> map_of q ''hapikey'' = None))"
proof (cases call)
  case (GetContacts l ps)
  then show ?thesis
    by (cases "list_params l ps") (auto simp add: get_contacts_def request_sent list_params_keys)
next
  case (GetCompanies l ps)
  then show ?thesis
    by (cases "list_params l ps") (auto simp add: get_companies_def request_sent list_params_keys)
next
  case (GetDeals l ps)
  then show ?thesis
    by (cases "list_params l ps") (auto simp add: get_deals_def request_sent list_params_keys)
qed (auto simp add: get_contact_def create_contact_def update_contact_def delete_contact_def
      get_company_def create_company_def update_company_def get_deal_def create_deal_def
      search_def request_sent)

text \<open>
  C5. Take a client constructed from the configuration \<open>cfg\<close>, whose configuration
  reads \<open>cfg'\<close> when a request is made (\<open>cfg' = cfg\<close> unless it was changed in
  between). Every request of every client method carries the \<open>Authorization\<close> header
  chosen from \<open>cfg\<close> at construction: \<open>Bearer <access_token>\<close> when an access token is
  set, also when an API key is set too, and \<open>Bearer <api_key>\<close> when only an API key is
  set. The query gets no \<open>hapikey\<close> when an access token is set, and \<open>hapikey = <api_key>\<close>
  when only an API key is set. Set means a non-empty string, as the \<open>if\<close> of the source
  tests it.
\<close>

theorem auth_selection:
  assumes "req \<in> set (issued s (fst (perform ((HubSpotClient_init cfg)\<lparr>config := cfg'\<rparr>) w call s)))"
  shows "(access_token cfg = Some tok \<and> tok \<noteq> [] \<longrightarrow>
            header req ''Authorization'' = Some (''Bearer '' @ tok))
       \<and> (\<not> is_set (access_token cfg) \<and> api_key cfg = Some k \<and> k \<noteq> [] \<longrightarrow>
            header req ''Authorization'' = Some (''Bearer '' @ k))
       \<and> (is_set (access_token cfg') \<longrightarrow> query req ''hapikey'' = None)
       \<and> (\<not> is_set (access_token cfg') \<and> api_key cfg' = Some k' \<and> k' \<noteq> [] \<longrightarrow>
            query req ''hapikey'' = Some (JStr k'))"
proof -
  let ?c = "(HubSpotClient_init cfg)\<lparr>config := cfg'\<rparr>"
  from perform_cases [of ?c w call s] assms
  obtain m e p j where r: "req = \<lparr>req_method = m, req_url = urljoin w (base_url ?c) e,
        req_headers = headers ?c, req_params = with_api_key (config ?c) p, req_json = j\<rparr>"
    and p: "case p of None \<Rightarrow> True | Some q \<Rightarrow> map_of q ''hapikey'' = None"
    by (auto simp add: issued_def)
  show ?thesis
    using p unfolding r
    by (auto simp add: header_def query_def HubSpotClient_init_def get_headers_def with_api_key_def
        AList.update_conv' split: option.splits)
qed


theorem auth_selection_witness:
  "map (\<lambda>r. (header r ''Authorization'', query r ''hapikey''))
     (issued state0 (fst (perform (HubSpotClient_init cfg_both) (answering (Answered created))
        (GetContact (JStr ''1'')) state0)))
   = [(Some ''Bearer test_token'', None)]"
proof -
  let ?c = "HubSpotClient_init cfg_both"
  let ?w = "answering (Answered created)"
  obtain r where i: "issued state0 (fst (perform ?c ?w (GetContact (JStr ''1'')) state0)) = [r]"
    by (simp add: get_contact_def issued_def request_sent state0_def)
  have c: "?c\<lparr>config := cfg_both\<rparr> = ?c"
    by (simp add: HubSpotClient_init_def)
  have "r \<in> set (issued state0 (fst (perform (?c\<lparr>config := cfg_both\<rparr>) ?w
                    (GetContact (JStr ''1'')) state0)))"
    using i c by simp
  from auth_selection [OF this, of "''test_token''"]
  have "header r ''Authorization'' = Some ''Bearer test_token'' \<and> query r ''hapikey'' = None"
    by (simp add: cfg_both_def)
  then show ?thesis
    using i by simp
qed

section \<open>What a handler can come to\<close>

lemma outcome_request: "sent s0 = sent s \<Longrightarrow> outcome_ok c w s (request c w m e p j s0)"
  unfolding outcome_ok_def by blast

lemma outcome_failure: "local_failure e \<Longrightarrow> sent s0 = sent s \<Longrightarrow> outcome_ok c w s (s0, Inl e)"
  unfolding outcome_ok_def by blast

lemma str_items_failure: "str_items i xs = Inl e \<Longrightarrow> local_failure e"
  by (induction i xs rule: str_items.induct) (auto split: sum.splits)

lemma comma_join_failure: "comma_join v = Inl e \<Longrightarrow> local_failure e"
  by (cases v) (auto split: sum.splits dest: str_items_failure)

lemma list_params_failure: "list_params l ps = Inl e \<Longrightarrow> local_failure e"
  by (auto simp add: list_params_def Let_def split: if_splits sum.splits dest: comma_join_failure)

lemma setitem_failure: "setitem t k v s = Inl e \<Longrightarrow> local_failure e"
  by (cases t) auto

lemma setitem_sent: "setitem t k v s = Inr s' \<Longrightarrow> sent s' = sent s"
  by (cases t) auto

lemma copy_field_failure: "copy_field params k t s = Inl e \<Longrightarrow> local_failure e"
  by (auto simp add: copy_field_def split: option.splits dest: setitem_failure)

lemma copy_field_sent: "copy_field params k t s = Inr s' \<Longrightarrow> sent s' = sent s"
  by (auto simp add: copy_field_def split: option.splits dest: setitem_sent)

lemma reaches_list_contacts: "outcome_ok c w s (handle_list_contacts c w params s)"
  unfolding handle_list_contacts_def get_contacts_def Let_def
  by (auto split: sum.splits dest: list_params_failure intro!: outcome_request outcome_failure)

lemma reaches_list_companies: "outcome_ok c w s (handle_list_companies c w params s)"
  unfolding handle_list_companies_def get_companies_def Let_def
  by (auto split: sum.splits dest: list_params_failure intro!: outcome_request outcome_failure)

lemma reaches_list_deals: "outcome_ok c w s (handle_list_deals c w params s)"
  unfolding handle_list_deals_def get_deals_def Let_def
  by (auto split: sum.splits dest: list_params_failure intro!: outcome_request outcome_failure)

lemma reaches_get_contact: "outcome_ok c w s (handle_get_contact c w params s)"
  unfolding handle_get_contact_def get_contact_def subscript_def
  by (auto split: option.splits intro!: outcome_request outcome_failure)

lemma reaches_get_company: "outcome_ok c w s (handle_get_company c w params s)"
  unfolding handle_get_company_def get_company_def subscript_def
  by (auto split: option.splits intro!: outcome_request outcome_failure)

lemma reaches_update_contact: "outcome_ok c w s (handle_update_contact c w params s)"
  unfolding handle_update_contact_def update_contact_def subscript_def
  by (auto split: option.splits intro!: outcome_request outcome_failure)

lemma reaches_search: "outcome_ok c w s (handle_search c w params s)"
  unfolding handle_search_def search_def subscript_def Let_def
  by (auto split: option.splits intro!: outcome_request outcome_failure)

lemma reaches_create_company: "outcome_ok c w s (handle_create_company c w params s)"
  unfolding handle_create_company_def create_company_def
  by (auto simp add: new_dict_def split: option.splits sum.splits prod.splits
      dest: copy_field_failure dest!: copy_field_sent intro!: outcome_request outcome_failure)

lemma reaches_create_contact: "outcome_ok c w s (handle_create_contact c w params s)"
  unfolding handle_create_contact_def create_contact_def
  by (auto simp add: new_dict_def split: option.splits sum.splits prod.splits
      dest: copy_field_failure dest!: copy_field_sent intro!: outcome_request outcome_failure)

lemma registered_outcome:
  assumes "map_of (register_tools c) name = Some t"
  shows "outcome_ok c w s (handler t w params s)"
  using registered_cases [OF assms]
  by (auto simp add: reaches_list_contacts reaches_list_companies reaches_list_deals
      reaches_get_contact reaches_get_company reaches_update_contact reaches_search
      reaches_create_company reaches_create_contact)

section \<open>Responses\<close>

lemma request_204:
  assumes "\<And>req. \<exists>r. exchange w req = Answered r \<and> status_code r = 204"
  shows "snd (request c w m e p j s) = Inr no_content"
proof -
  let ?req = "\<lparr>req_method = m, req_url = urljoin w (base_url c) e, req_headers = headers c,
                req_params = with_api_key (config c) p, req_json = j\<rparr>"
  obtain r where "exchange w ?req = Answered r" "status_code r = 204"
    using assms by blast
  then show ?thesis
    by (simp add: request_def Let_def is_success_def)
qed

text \<open>
  C7, as the program has it. When the remote API answers 204, \<open>request\<close> returns
  \<open>{"success": true, "message": "Operation completed successfully"}\<close> and does not look
  at the body; so does the client method \<open>delete_contact\<close>. A registered tool whose
  request is answered 204 returns the success envelope around that value (a handler that
  fails before its request returns the failure envelope and sends nothing). There is no
  tool \<open>delete_contact\<close> in the registry: the dispatcher raises the unknown-tool error
  for that name.
\<close>

theorem no_content_normalised:
  assumes "\<And>req. \<exists>r. exchange w req = Answered r \<and> status_code r = 204"
  shows "snd (request c w m e p j s) = Inr no_content
       \<and> snd (delete_contact c w i s) = Inr no_content
       \<and> (map_of (tools (MCPServer_init cfg)) name = Some t \<longrightarrow>
            snd (handle_tool_call (MCPServer_init cfg) w name params s)
              = Inr (success_envelope no_content)
            \<or> issued s (fst (handle_tool_call (MCPServer_init cfg) w name params s)) = []
              \<and> (\<exists>x. local_failure x \<and>
                    snd (handle_tool_call (MCPServer_init cfg) w name params s)
                      = Inr (failure_envelope (str_exc x))))
       \<and> snd (handle_tool_call (MCPServer_init cfg) w ''delete_contact'' params s)
            = Inl (ValueError ''Unknown tool: delete_contact'')"
proof -
  have a: "\<And>c m e p j s. snd (request c w m e p j s) = Inr no_content"
    using assms by (rule request_204)
  have b: "snd (delete_contact c w i s) = Inr no_content"
    by (simp add: delete_contact_def a)
  have d: "snd (handle_tool_call (MCPServer_init cfg) w ''delete_contact'' params s)
            = Inl (ValueError ''Unknown tool: delete_contact'')"
    by (simp add: handle_tool_call_def tools_init register_tools_def)
  have c: "snd (handle_tool_call (MCPServer_init cfg) w name params s)
              = Inr (success_envelope no_content)
            \<or> issued s (fst (handle_tool_call (MCPServer_init cfg) w name params s)) = []
              \<and> (\<exists>x. local_failure x \<and>
                    snd (handle_tool_call (MCPServer_init cfg) w name params s)
                      = Inr (failure_envelope (str_exc x)))"
    if h: "map_of (tools (MCPServer_init cfg)) name = Some t"
  proof -
    from h have "outcome_ok (HubSpotClient_init cfg) w s (handler t w params s)"
      by (simp add: tools_init registered_outcome)
    then consider
      (local) x s0 where "handler t w params s = (s0, Inl x)" "local_failure x" "sent s0 = sent s"
      | (remote) m e p j s0 where
          "handler t w params s = request (HubSpotClient_init cfg) w m e p j s0" "sent s0 = sent s"
      unfolding outcome_ok_def by blast
    then show ?thesis
    proof cases
      case local
      then show ?thesis
        using h by (auto simp add: handle_tool_call_def issued_def log_line_def)
    next
      case remote
      obtain s1 where "request (HubSpotClient_init cfg) w m e p j s0 = (s1, Inr no_content)"
        using a [of "HubSpotClient_init cfg" m e p j s0]
        by (cases "request (HubSpotClient_init cfg) w m e p j s0") simp
      then show ?thesis
        using h remote by (simp add: handle_tool_call_def)
    qed
  qed
  show ?thesis
    using a b c d by blast
qed

theorem no_content_normalised_witness:
  "snd (handle_tool_call (MCPServer_init cfg_token) (answering (Answered deleted)) ''get_contact''
     [(''contact_id'', PStr ''1'')] state0)
   = Inr (JObj [(''success'', JBool True), (''result'',
        JObj [(''success'', JBool True), (''message'', JStr ''Operation completed successfully'')])])"
proof -
  let ?w = "answering (Answered deleted)"
  have h: "\<And>req. \<exists>r. exchange ?w req = Answered r \<and> status_code r = 204"
    by (simp add: answering_def deleted_def)
  obtain t where t: "map_of (tools (MCPServer_init cfg_token)) ''get_contact'' = Some t"
    by (simp add: tools_init register_tools_def)
  have n: "issued state0 (fst (handle_tool_call (MCPServer_init cfg_token) ?w ''get_contact''
     [(''contact_id'', PStr ''1'')] state0)) \<noteq> []"
    unfolding dispatch_issued(1) [OF server_handlers(2)]
    by (simp add: handle_get_contact_def subscript_def get_contact_def issued_def request_sent)
  from no_content_normalised [OF h, where cfg = cfg_token and name = "''get_contact''"
      and t = t and params = "[(''contact_id'', PStr ''1'')]" and s = state0] t n
  show ?thesis
    by (simp add: success_envelope_def no_content_def)
qed

text \<open>
  C7, as stated, fails: dispatching \<open>delete_contact\<close> in a world that answers 204 raises
  \<open>ValueError\<close> and returns no envelope.
\<close>

theorem delete_contact_not_registered:
  "handle_tool_call (MCPServer_init cfg_token) (answering (Answered deleted)) ''delete_contact''
     [(''contact_id'', PStr ''1'')] state0
   = (state0, Inl (ValueError ''Unknown tool: delete_contact''))
   \<and> snd (handle_tool_call (MCPServer_init cfg_token) (answering (Answered deleted))
          ''delete_contact'' [(''contact_id'', PStr ''1'')] state0)
     \<noteq> Inr (success_envelope no_content)"
  by (simp add: handle_tool_call_def tools_init register_tools_def)

lemma request_status_error:
  assumes "exchange w \<lparr>req_method = m, req_url = urljoin w (base_url c) e, req_headers = headers c,
                req_params = with_api_key (config c) p, req_json = j\<rparr> = Answered r"
    and "\<not> is_success r"
  shows "request c w m e p j s =
     (log_line (''HTTP error occurred: '' @ dec (status_code r) @ '' - '' @ text_body r)
        (s\<lparr>sent := sent s @ [\<lparr>req_method = m, req_url = urljoin w (base_url c) e,
              req_headers = headers c, req_params = with_api_key (config c) p, req_json = j\<rparr>]\<rparr>),
      Inl (HTTPStatusError (status_message w r) r))"
  using assms by (simp add: request_def Let_def)

lemma request_network_error:
  assumes "\<And>req. exchange w req = Failed msg"
  shows "snd (request c w m e p j s) = Inl (RequestError msg)"
  using assms by (simp add: request_def Let_def)

text \<open>
  C8, as the program has it. When the remote API answers with a status that is not 2xx,
  \<open>request\<close> raises the \<open>HTTPStatusError\<close> of \<open>raise_for_status\<close>, which carries the
  response (status and body), after writing both to the error log; a transport failure
  raises another exception, \<open>RequestError\<close>. Through the dispatcher the failure comes
  back as the failure envelope whose \<open>error\<close> is \<open>str(e)\<close>, the message the HTTP library
  gave the exception: the program adds neither the status nor the body to it. Nothing is
  raised past the dispatcher.
\<close>

theorem status_error_surfaces:
  assumes "\<And>req. exchange w req = Answered r"
    and "\<not> is_success r"
  shows "request c w m e p j s =
           (log_line (''HTTP error occurred: '' @ dec (status_code r) @ '' - '' @ text_body r)
              (s\<lparr>sent := sent s @ [\<lparr>req_method = m, req_url = urljoin w (base_url c) e,
                    req_headers = headers c, req_params = with_api_key (config c) p,
                    req_json = j\<rparr>]\<rparr>),
            Inl (HTTPStatusError (status_message w r) r))
       \<and> (\<forall>w' msg. (\<forall>req. exchange w' req = Failed msg) \<longrightarrow>
             snd (request c w' m e p j s) = Inl (RequestError msg))
       \<and> (map_of (tools (MCPServer_init cfg)) name = Some t \<longrightarrow>
            snd (handle_tool_call (MCPServer_init cfg) w name params s)
              = Inr (failure_envelope (status_message w r))
            \<or> issued s (fst (handle_tool_call (MCPServer_init cfg) w name params s)) = []
              \<and> (\<exists>x. local_failure x \<and>
                    snd (handle_tool_call (MCPServer_init cfg) w name params s)
                      = Inr (failure_envelope (str_exc x))))"
proof -
  have a: "\<And>c m e p j s. snd (request c w m e p j s) = Inl (HTTPStatusError (status_message w r) r)"
    using assms by (simp add: request_status_error)
  have b: "\<forall>w' msg. (\<forall>req. exchange w' req = Failed msg) \<longrightarrow>
             snd (request c w' m e p j s) = Inl (RequestError msg)"
    by (simp add: request_network_error)
  have c: "snd (handle_tool_call (MCPServer_init cfg) w name params s)
              = Inr (failure_envelope (status_message w r))
            \<or> issued s (fst (handle_tool_call (MCPServer_init cfg) w name params s)) = []
              \<and> (\<exists>x. local_failure x \<and>
                    snd (handle_tool_call (MCPServer_init cfg) w name params s)
                      = Inr (failure_envelope (str_exc x)))"
    if h: "map_of (tools (MCPServer_init cfg)) name = Some t"
  proof -
    from h have "outcome_ok (HubSpotClient_init cfg) w s (handler t w params s)"
      by (simp add: tools_init registered_outcome)
    then consider
      (local) x s0 where "handler t w params s = (s0, Inl x)" "local_failure x" "sent s0 = sent s"
      | (remote) m e p j s0 where
          "handler t w params s = request (HubSpotClient_init cfg) w m e p j s0" "sent s0 = sent s"
      unfolding outcome_ok_def by blast
    then show ?thesis
    proof cases
      case local
      then show ?thesis
        using h by (auto simp add: handle_tool_call_def issued_def log_line_def)
    next
      case remote
      obtain s1 where "request (HubSpotClient_init cfg) w m e p j s0
                         = (s1, Inl (HTTPStatusError (status_message w r) r))"
        using a [of "HubSpotClient_init cfg" m e p j s0]
        by (cases "request (HubSpotClient_init cfg) w m e p j s0") simp
      then show ?thesis
        using h remote by (simp add: handle_tool_call_def)
    qed
  qed
  show ?thesis
    using request_status_error [OF assms(1) assms(2)] b c by blast
qed

theorem status_error_surfaces_witness:
  "logged (fst (request (HubSpotClient_init cfg_token) (answering (Answered failed_500))
             ''GET'' ''/crm/v3/objects/contacts/1'' None None state0))
     = [''HTTP error occurred: 500 - boom'']
   \<and> snd (handle_tool_call (MCPServer_init cfg_token) (answering (Answered failed_500))
            ''get_contact'' [(''contact_id'', PStr ''1'')] state0)
     = Inr (JObj [(''success'', JBool False),
                  (''error'', JStr (server_error_message failed_500))])"
proof -
  let ?w = "answering (Answered failed_500)"
  have h1: "\<And>req. exchange ?w req = Answered failed_500"
    by (simp add: answering_def)
  have h2: "\<not> is_success failed_500"
    by (simp add: is_success_def failed_500_def)
  obtain t where t: "map_of (tools (MCPServer_init cfg_token)) ''get_contact'' = Some t"
    by (simp add: tools_init register_tools_def)
  have n: "issued state0 (fst (handle_tool_call (MCPServer_init cfg_token) ?w ''get_contact''
     [(''contact_id'', PStr ''1'')] state0)) \<noteq> []"
    unfolding dispatch_issued(1) [OF server_handlers(2)]
    by (simp add: handle_get_contact_def subscript_def get_contact_def issued_def request_sent)
  have m: "status_message ?w failed_500 = server_error_message failed_500"
    by (simp add: answering_def)
  from status_error_surfaces [OF h1 h2, where cfg = cfg_token and name = "''get_contact''"
      and t = t and params = "[(''contact_id'', PStr ''1'')]" and s = state0
      and c = "HubSpotClient_init cfg_token" and m = "''GET''"
      and e = "''/crm/v3/objects/contacts/1''" and p = None and j = None] t n m
  show ?thesis
    by (simp add: failure_envelope_def log_line_def state0_def failed_500_def dec.simps digit_def)
qed

text \<open>
  C8, as stated, fails: with the message the HTTP library gives a 500, the \<open>error\<close> of
  the envelope holds the status and not the body of the response.
\<close>

theorem status_error_message_lacks_body:
  "snd (handle_tool_call (MCPServer_init cfg_token) (answering (Answered failed_500)) ''get_contact''
     [(''contact_id'', PStr ''1'')] state0)
   = Inr (failure_envelope (server_error_message failed_500))
   \<and> text_body failed_500 = ''boom''
   \<and> contains (server_error_message failed_500) ''500''
   \<and> \<not> contains (server_error_message failed_500) ''boom''"
  by (simp add: handle_tool_call_def tools_init register_tools_def handle_get_contact_def
      subscript_def get_contact_def request_def is_success_def answering_def
      server_error_message_def failed_500_def dec.simps digit_def quote_def log_line_def)

section \<open>Required parameters\<close>

lemma request_no_KeyError: "snd (request c w m e p j s) \<noteq> Inl (KeyError k)"
  by (simp add: request_def Let_def split: reply.splits sum.splits)

lemma str_items_no_KeyError: "str_items i xs \<noteq> Inl (KeyError k)"
  by (induction i xs rule: str_items.induct) (auto split: sum.splits)

lemma list_params_no_KeyError: "list_params l ps \<noteq> Inl (KeyError k)"
  by (cases ps) (auto simp add: list_params_def Let_def str_items_no_KeyError split: sum.splits)

lemma not_demands:
  assumes "map_of params k = None"
    and "\<And>k'. snd (h w params s) \<noteq> Inl (KeyError k')"
  shows "\<not> demands h k"
  using assms unfolding demands_def by blast

lemma demands_list_contacts: "\<not> demands (handle_list_contacts c) k"
proof (rule not_demands [where params = "[]"])
  show "map_of [] k = None" by simp
  show "snd (handle_list_contacts c w [] s) \<noteq> Inl (KeyError k')" for k' w s
    by (simp add: handle_list_contacts_def get_default_def get_contacts_def list_params_def
        request_no_KeyError)
qed

lemma demands_list_companies: "\<not> demands (handle_list_companies c) k"
proof (rule not_demands [where params = "[]"])
  show "map_of [] k = None" by simp
  show "snd (handle_list_companies c w [] s) \<noteq> Inl (KeyError k')" for k' w s
    by (simp add: handle_list_companies_def get_default_def get_companies_def list_params_def
        request_no_KeyError)
qed

lemma demands_list_deals: "\<not> demands (handle_list_deals c) k"
proof (rule not_demands [where params = "[]"])
  show "map_of [] k = None" by simp
  show "snd (handle_list_deals c w [] s) \<noteq> Inl (KeyError k')" for k' w s
    by (simp add: handle_list_deals_def get_default_def get_deals_def list_params_def
        request_no_KeyError)
qed

lemma demands_create_contact: "\<not> demands (handle_create_contact c) k"
proof (rule not_demands [where params = "[]"])
  show "map_of [] k = None" by simp
  show "snd (handle_create_contact c w [] s) \<noteq> Inl (KeyError k')" for k' w s
    by (simp add: handle_create_contact_def copy_field_def new_dict_def create_contact_def
        request_no_KeyError)
qed

lemma demands_create_company: "\<not> demands (handle_create_company c) k"
proof (rule not_demands [where params = "[]"])
  show "map_of [] k = None" by simp
  show "snd (handle_create_company c w [] s) \<noteq> Inl (KeyError k')" for k' w s
    by (simp add: handle_create_company_def copy_field_def new_dict_def create_company_def
        request_no_KeyError)
qed

lemma demands_get_contact: "demands (handle_get_contact c) k \<longleftrightarrow> k = ''contact_id''"
proof
  assume d: "demands (handle_get_contact c) k"
  show "k = ''contact_id''"
  proof (rule ccontr)
    assume "k \<noteq> ''contact_id''"
    then have "\<not> demands (handle_get_contact c) k"
      by (intro not_demands [where params = "[(''contact_id'', PStr ''1'')]"])
         (simp_all add: handle_get_contact_def subscript_def get_contact_def request_no_KeyError)
    with d show False by simp
  qed
next
  assume "k = ''contact_id''"
  then show "demands (handle_get_contact c) k"
    by (simp add: demands_def handle_get_contact_def subscript_def)
qed

lemma demands_get_company: "demands (handle_get_company c) k \<longleftrightarrow> k = ''company_id''"
proof
  assume d: "demands (handle_get_company c) k"
  show "k = ''company_id''"
  proof (rule ccontr)
    assume "k \<noteq> ''company_id''"
    then have "\<not> demands (handle_get_company c) k"
      by (intro not_demands [where params = "[(''company_id'', PStr ''1'')]"])
         (simp_all add: handle_get_company_def subscript_def get_company_def request_no_KeyError)
    with d show False by simp
  qed
next
  assume "k = ''company_id''"
  then show "demands (handle_get_company c) k"
    by (simp add: demands_def handle_get_company_def subscript_def)
qed

lemma demands_update_contact:
  "demands (handle_update_contact c) k \<longleftrightarrow> k = ''contact_id'' \<or> k = ''properties''"
proof
  assume d: "demands (handle_update_contact c) k"
  show "k = ''contact_id'' \<or> k = ''properties''"
  proof (rule ccontr)
    assume "\<not> (k = ''contact_id'' \<or> k = ''properties'')"
    then have "\<not> demands (handle_update_contact c) k"
      by (intro not_demands [where params = "[(''contact_id'', PStr ''1''), (''properties'', PNone)]"])
         (simp_all add: handle_update_contact_def subscript_def update_contact_def
            request_no_KeyError)
    with d show False by simp
  qed
next
  assume "k = ''contact_id'' \<or> k = ''properties''"
  then show "demands (handle_update_contact c) k"
    by (auto simp add: demands_def handle_update_contact_def subscript_def split: option.splits)
qed

lemma demands_search:
  "demands (handle_search c) k \<longleftrightarrow> k = ''object_type'' \<or> k = ''property'' \<or> k = ''value''"
proof
  assume d: "demands (handle_search c) k"
  show "k = ''object_type'' \<or> k = ''property'' \<or> k = ''value''"
  proof (rule ccontr)
    assume "\<not> (k = ''object_type'' \<or> k = ''property'' \<or> k = ''value'')"
    then have "\<not> demands (handle_search c) k"
      by (intro not_demands [where params = "[(''object_type'', PStr ''contacts''),
            (''property'', PStr ''email''), (''value'', PStr ''x'')]"])
         (simp_all add: handle_search_def subscript_def search_def request_no_KeyError)
    with d show False by simp
  qed
next
  assume "k = ''object_type'' \<or> k = ''property'' \<or> k = ''value''"
  then show "demands (handle_search c) k"
    by (auto simp add: demands_def handle_search_def subscript_def Let_def split: option.splits)
qed

text \<open>
  C2, as the program has it. For a tool of the registry other than \<open>create_contact\<close> and
  \<open>create_company\<close>, the keys in \<open>required\<close> of its schema are exactly the keys its
  handler dereferences without a default: a call without such a key ends in the lookup
  error with nothing sent, and no other key has that effect. \<open>create_contact\<close> and
  \<open>create_company\<close> read \<open>email\<close> and \<open>name\<close> only under the test \<open>if key in params\<close>:
  their handlers demand no key at all.
\<close>

theorem required_and_demanded:
  assumes "map_of (tools (MCPServer_init cfg)) name = Some t"
  shows "demands (handler t) k \<longleftrightarrow>
           name \<noteq> ''create_contact'' \<and> name \<noteq> ''create_company'' \<and> k \<in> set (required_keys t)"
proof -
  note c = registered_cases [OF assms [unfolded tools_init]]
  show ?thesis
    using c
    apply (elim disjE conjE)
            apply (simp_all only: demands_list_contacts demands_list_companies demands_list_deals
        demands_create_contact demands_create_company demands_get_contact demands_get_company
        demands_update_contact demands_search)
            apply simp_all
    done
qed

theorem required_and_demanded_witness:
  "demands (handle_get_contact (HubSpotClient_init cfg_token)) ''contact_id''
   \<and> \<not> demands (handle_get_contact (HubSpotClient_init cfg_token)) ''limit''
   \<and> \<not> demands (handle_create_contact (HubSpotClient_init cfg_token)) ''email''"
proof -
  let ?c = "HubSpotClient_init cfg_token"
  obtain t where t: "map_of (tools (MCPServer_init cfg_token)) ''get_contact'' = Some t"
    by (simp add: tools_init register_tools_def)
  then have ht: "handler t = handle_get_contact ?c" "required_keys t = [''contact_id'']"
    using registered_cases [of ?c "''get_contact''" t] by (simp_all add: tools_init)
  obtain u where u: "map_of (tools (MCPServer_init cfg_token)) ''create_contact'' = Some u"
    by (simp add: tools_init register_tools_def)
  then have hu: "handler u = handle_create_contact ?c"
    using registered_cases [of ?c "''create_contact''" u] by (simp add: tools_init)
  show ?thesis
    using required_and_demanded [OF t, of "''contact_id''"] required_and_demanded [OF t, of "''limit''"]
      required_and_demanded [OF u, of "''email''"] ht hu
    by simp
qed

text \<open>
  C2, as stated, fails: \<open>create_contact\<close> declares \<open>email\<close> required, and a call without
  it raises no lookup error; it posts \<open>{"properties": {}}\<close> and succeeds.
\<close>

theorem create_contact_without_email:
  "map_option required_keys (map_of (tools (MCPServer_init cfg_token)) ''create_contact'')
     = Some [''email'']
   \<and> snd (handle_tool_call (MCPServer_init cfg_token) (answering (Answered created))
            ''create_contact'' [] state0)
     = Inr (JObj [(''success'', JBool True), (''result'', JObj [])])
   \<and> map (\<lambda>r. (req_method r, req_json r))
       (sent (fst (handle_tool_call (MCPServer_init cfg_token) (answering (Answered created))
            ''create_contact'' [] state0)))
     = [(''POST'', Some (JObj [(''properties'', JObj [])]))]"
  by (simp add: handle_tool_call_def tools_init register_tools_def required_keys_def
      handle_create_contact_def copy_field_def new_dict_def create_contact_def request_def
      is_success_def answering_def created_def state0_def success_envelope_def)

section \<open>The caller's objects\<close>

lemma copy_field_dict:
  "copy_field params k (PDict a) s =
     Inr (s\<lparr>heap := (heap s)(a := merge_field params s k (heap s a))\<rparr>)"
  by (simp add: copy_field_def merge_field_def split: option.splits)

lemma copy_field_other:
  assumes "\<And>a. t \<noteq> PDict a" and "copy_field params k t s = Inr s'"
  shows "s' = s"
  using assms by (cases t) (auto simp add: copy_field_def split: option.splits)

lemma refs_member: "map_of ps k = Some (PDict a) \<Longrightarrow> a \<in> set (refs ps)"
  by (induction ps rule: refs.induct) (auto split: if_splits)

lemma refs_distinct_keys:
  assumes "distinct (refs ps)"
    and "map_of ps k = Some (PDict a)"
    and "map_of ps k' = Some (PDict a)"
  shows "k = k'"
  using assms
  by (induction ps rule: refs.induct) (auto split: if_splits dest: refs_member)

lemma merge_field_frame:
  assumes "map_of params k \<noteq> Some (PDict a)"
  shows "merge_field params (s\<lparr>heap := (heap s)(a := x)\<rparr>) k d = merge_field params s k d"
proof (cases "map_of params k")
  case None
  then show ?thesis by (simp add: merge_field_def)
next
  case (Some v)
  with assms show ?thesis by (cases v) (auto simp add: merge_field_def)
qed

lemma create_contact_own_dict:
  assumes "map_of params ''properties'' = Some (PDict a)"
  shows "heap (fst (handle_create_contact c w params s)) =
           (heap s)(a :=
              (let s1 = s\<lparr>heap := (heap s)(a := merge_field params s ''email'' (heap s a))\<rparr>;
                   s2 = s1\<lparr>heap := (heap s1)(a := merge_field params s1 ''firstname'' (heap s1 a))\<rparr>
               in merge_field params s2 ''lastname'' (heap s2 a)))"
  using assms
  by (simp add: handle_create_contact_def copy_field_dict create_contact_def request_heap Let_def)

lemma create_contact_fresh_dict:
  assumes "map_of params ''properties'' = None" and "a < lim s"
  shows "heap (fst (handle_create_contact c w params s)) a = heap s a"
  using assms
  by (simp add: handle_create_contact_def new_dict_def copy_field_dict create_contact_def
      request_heap)

lemma create_contact_not_dict:
  assumes "map_of params ''properties'' = Some v" and "\<And>a. v \<noteq> PDict a"
  shows "heap (fst (handle_create_contact c w params s)) = heap s"
proof -
  have e: "copy_field params k v s = Inr s' \<Longrightarrow> s' = s" for k s'
    using assms(2) by (rule copy_field_other)
  show ?thesis
    using assms(1)
    by (auto simp add: handle_create_contact_def create_contact_def request_heap
        split: sum.splits dest!: e)
qed

lemma create_contact_request:
  assumes "map_of params ''properties'' = Some (PDict a)"
  shows "map req_json (issued s (fst (handle_create_contact c w params s)))
           = [Some (JObj [(''properties'',
                JObj (heap (fst (handle_create_contact c w params s)) a))])]"
  using assms
  by (simp add: handle_create_contact_def copy_field_dict create_contact_def request_heap
      request_sent issued_def)

text \<open>
  C9, as the program has it. \<open>create_contact\<close> makes no copy of the caller's
  \<open>properties\<close>. When the argument map has no \<open>properties\<close>, the shorthand fields go
  into a fresh dict and every object that existed before the call is unchanged. When
  \<open>properties\<close> is a dict, the shorthand fields are written into that very object: after
  the call it holds the merged map, which is also the \<open>properties\<close> of the request body,
  and every other object is unchanged. When \<open>properties\<close> is not a dict, no object is
  written. The argument map itself is only read.
\<close>

theorem create_contact_aliases_properties:
  assumes "distinct (refs params)"
  shows "(map_of params ''properties'' = None \<longrightarrow>
            (\<forall>a. a < lim s \<longrightarrow>
               heap (fst (handle_tool_call (MCPServer_init cfg) w ''create_contact'' params s)) a
                 = heap s a))
       \<and> (\<forall>a. map_of params ''properties'' = Some (PDict a) \<longrightarrow>
            heap (fst (handle_tool_call (MCPServer_init cfg) w ''create_contact'' params s))
              = (heap s)(a := merge_field params s ''lastname''
                                (merge_field params s ''firstname''
                                   (merge_field params s ''email'' (heap s a))))
            \<and> map req_json
                 (issued s (fst (handle_tool_call (MCPServer_init cfg) w ''create_contact'' params s)))
              = [Some (JObj [(''properties'', JObj
                   (heap (fst (handle_tool_call (MCPServer_init cfg) w ''create_contact'' params s))
                      a))])])
       \<and> (\<forall>v. map_of params ''properties'' = Some v \<and> (\<forall>a. v \<noteq> PDict a) \<longrightarrow>
            heap (fst (handle_tool_call (MCPServer_init cfg) w ''create_contact'' params s))
              = heap s)"
proof -
  let ?c = "HubSpotClient_init cfg"
  have d: "issued s (fst (handle_tool_call (MCPServer_init cfg) w ''create_contact'' params s))
             = issued s (fst (handle_create_contact ?c w params s))"
    "heap (fst (handle_tool_call (MCPServer_init cfg) w ''create_contact'' params s))
             = heap (fst (handle_create_contact ?c w params s))"
    by (rule dispatch_issued [OF server_handlers(3)])+
  have own: "heap (fst (handle_create_contact ?c w params s))
              = (heap s)(a := merge_field params s ''lastname''
                                (merge_field params s ''firstname''
                                   (merge_field params s ''email'' (heap s a))))"
    if h: "map_of params ''properties'' = Some (PDict a)" for a
  proof -
    have "map_of params ''email'' \<noteq> Some (PDict a)"
      "map_of params ''firstname'' \<noteq> Some (PDict a)"
      "map_of params ''lastname'' \<noteq> Some (PDict a)"
      using refs_distinct_keys [OF assms h] by auto
    then show ?thesis
      by (simp add: create_contact_own_dict [OF h] Let_def merge_field_frame)
  qed
  show ?thesis
    unfolding d
    using own create_contact_fresh_dict [of params _ s ?c w]
      create_contact_not_dict [of params _ ?c w s] create_contact_request [of params _ s ?c w]
    by auto
qed

theorem create_contact_aliases_properties_witness:
  "distinct (refs [(''email'', PStr ''a@b.com''), (''properties'', PDict 0)])
   \<and> heap (fst (handle_tool_call (MCPServer_init cfg_token) (answering (Answered created))
              ''create_contact'' [(''email'', PStr ''a@b.com''), (''properties'', PDict 0)] state1))
     = (heap state1)(0 := [(''email'', JStr ''a@b.com''), (''lastname'', JStr ''Y'')])
   \<and> map req_json
       (issued state1 (fst (handle_tool_call (MCPServer_init cfg_token) (answering (Answered created))
              ''create_contact'' [(''email'', PStr ''a@b.com''), (''properties'', PDict 0)] state1)))
     = [Some (JObj [(''properties'',
          JObj [(''email'', JStr ''a@b.com''), (''lastname'', JStr ''Y'')])])]"
proof -
  let ?p = "[(''email'', PStr ''a@b.com''), (''properties'', PDict 0)]"
  have h: "distinct (refs ?p)"
    by simp
  have k: "map_of ?p ''properties'' = Some (PDict 0)"
    by simp
  from create_contact_aliases_properties [OF h, where cfg = cfg_token and s = state1
      and w = "answering (Answered created)"] k
  have "heap (fst (handle_tool_call (MCPServer_init cfg_token) (answering (Answered created))
              ''create_contact'' ?p state1))
          = (heap state1)(0 := merge_field ?p state1 ''lastname''
                                (merge_field ?p state1 ''firstname''
                                   (merge_field ?p state1 ''email'' (heap state1 0))))
        \<and> map req_json
            (issued state1 (fst (handle_tool_call (MCPServer_init cfg_token)
               (answering (Answered created)) ''create_contact'' ?p state1)))
          = [Some (JObj [(''properties'', JObj
               (heap (fst (handle_tool_call (MCPServer_init cfg_token)
                  (answering (Answered created)) ''create_contact'' ?p state1)) 0))])]"
    by blast
  then show ?thesis
    using h by (simp add: merge_field_def state1_def)
qed

text \<open>
  C9, as stated, fails: after a call with \<open>{email: "a@b.com", properties: P}\<close> the
  caller's own object \<open>P\<close> has \<open>email\<close> overwritten.
\<close>

theorem create_contact_changes_callers_properties:
  "heap state1 0 = [(''email'', JStr ''old@b.com''), (''lastname'', JStr ''Y'')]
   \<and> heap (fst (handle_tool_call (MCPServer_init cfg_token) (answering (Answered created))
              ''create_contact'' [(''email'', PStr ''a@b.com''), (''properties'', PDict 0)] state1)) 0
     = [(''email'', JStr ''a@b.com''), (''lastname'', JStr ''Y'')]"
  by (simp add: handle_tool_call_def tools_init register_tools_def handle_create_contact_def
      copy_field_def create_contact_def request_def is_success_def answering_def created_def
      state1_def)

section \<open>The body of \<open>create_contact\<close>\<close>

lemma merge_field_upd:
  assumes "a \<notin> set (refs params)"
  shows "merge_field params (s\<lparr>heap := (heap s)(a := x)\<rparr>) k d = merge_field params s k d"
proof (rule merge_field_frame)
  show "map_of params k \<noteq> Some (PDict a)"
    using assms refs_member [of params k a] by blast
qed

lemma merge_field_lim: "merge_field params (s\<lparr>lim := y\<rparr>) k d = merge_field params s k d"
proof (cases "map_of params k")
  case None
  then show ?thesis by (simp add: merge_field_def)
next
  case (Some v)
  then show ?thesis by (cases v) (simp_all add: merge_field_def)
qed

lemma create_contact_fresh_body:
  assumes "map_of params ''properties'' = None"
    and "lim s \<notin> set (refs params)"
  shows "map (\<lambda>r. (req_method r, req_json r)) (issued s (fst (handle_create_contact c w params s)))
           = [(''POST'', Some (JObj [(''properties'', JObj
                (merge_field params s ''lastname''
                   (merge_field params s ''firstname''
                      (merge_field params s ''email'' []))))]))]"
proof -
  let ?s0 = "s\<lparr>heap := (heap s)(lim s := [])\<rparr>"
  let ?m1 = "merge_field params s ''email'' []"
  let ?s1 = "s\<lparr>heap := (heap s)(lim s := ?m1)\<rparr>"
  let ?m2 = "merge_field params s ''firstname'' ?m1"
  let ?s2 = "s\<lparr>heap := (heap s)(lim s := ?m2)\<rparr>"
  have f: "merge_field params (s\<lparr>lim := y, heap := (heap s)(lim s := x)\<rparr>) k d
             = merge_field params s k d" for x y k d
    using merge_field_upd [OF assms(2), where s = "s\<lparr>lim := y\<rparr>" and x = x and k = k and d = d]
      merge_field_lim [where params = params and s = s and y = y and k = k and d = d]
    by simp
  have g: "merge_field params (s\<lparr>heap := (heap s)(lim s := x), lim := y\<rparr>) k d
             = merge_field params s k d" for x y k d
    using merge_field_lim [where params = params and s = "s\<lparr>heap := (heap s)(lim s := x)\<rparr>"
        and y = y and k = k and d = d]
      merge_field_upd [OF assms(2), where s = s and x = x and k = k and d = d]
    by simp
  show ?thesis
    using assms(1)
    by (simp add: handle_create_contact_def new_dict_def copy_field_dict create_contact_def
        request_sent issued_def f g)
qed

lemma create_contact_own_body:
  assumes "map_of params ''properties'' = Some (PDict a)"
    and "distinct (refs params)"
  shows "map (\<lambda>r. (req_method r, req_json r)) (issued s (fst (handle_create_contact c w params s)))
           = [(''POST'', Some (JObj [(''properties'', JObj
                (merge_field params s ''lastname''
                   (merge_field params s ''firstname''
                      (merge_field params s ''email'' (heap s a)))))]))]"
proof -
  have "map_of params ''email'' \<noteq> Some (PDict a)"
    "map_of params ''firstname'' \<noteq> Some (PDict a)"
    "map_of params ''lastname'' \<noteq> Some (PDict a)"
    using refs_distinct_keys [OF assms(2) assms(1)] by auto
  then show ?thesis
    using assms(1)
    by (simp add: handle_create_contact_def copy_field_dict create_contact_def request_sent
        issued_def merge_field_frame)
qed

lemma merged_lookup:
  "map_of (merge_field params s ''lastname''
            (merge_field params s ''firstname''
               (merge_field params s ''email'' d))) k
     = (case shorthand params s k of Some v \<Rightarrow> Some v | None \<Rightarrow> map_of d k)"
  by (auto simp add: merge_field_def shorthand_def AList.update_conv' split: option.splits)

text \<open>
  C4. A \<open>create_contact\<close> call with \<open>{email: "a@b.com", firstname: "X"}\<close> issues one
  POST with the body \<open>{"properties": {"email": "a@b.com", "firstname": "X"}}\<close>; a call
  with \<open>{email: "a@b.com", properties: P}\<close>, where the object \<open>P\<close> is
  \<open>{email: "old@b.com", lastname: "Y"}\<close>, issues one POST with the body
  \<open>{"properties": {"email": "a@b.com", "lastname": "Y"}}\<close>. The rule behind both: for
  every argument map, the \<open>properties\<close> of the body are the shorthand fields given,
  \<open>email\<close>, \<open>firstname\<close>, \<open>lastname\<close> in this order, on top of nothing when the call has no
  \<open>properties\<close>, and on top of the given \<open>properties\<close> when it has: a key of the body has
  the value of the shorthand field of that name if the call gives one, and the value the
  given \<open>properties\<close> have for it otherwise.
\<close>

theorem create_contact_body:
  "map (\<lambda>r. (req_method r, req_json r))
     (issued s (fst (handle_tool_call (MCPServer_init cfg) w ''create_contact''
        [(''email'', PStr ''a@b.com''), (''firstname'', PStr ''X'')] s)))
     = [(''POST'', Some (JObj [(''properties'',
           JObj [(''email'', JStr ''a@b.com''), (''firstname'', JStr ''X'')])]))]
   \<and> (heap s a = [(''email'', JStr ''old@b.com''), (''lastname'', JStr ''Y'')] \<longrightarrow>
        map (\<lambda>r. (req_method r, req_json r))
           (issued s (fst (handle_tool_call (MCPServer_init cfg) w ''create_contact''
              [(''email'', PStr ''a@b.com''), (''properties'', PDict a)] s)))
         = [(''POST'', Some (JObj [(''properties'',
               JObj [(''email'', JStr ''a@b.com''), (''lastname'', JStr ''Y'')])]))])
   \<and> (map_of params ''properties'' = None \<and> (\<forall>b \<in> set (refs params). b < lim s) \<longrightarrow>
        map (\<lambda>r. (req_method r, req_json r))
           (issued s (fst (handle_tool_call (MCPServer_init cfg) w ''create_contact'' params s)))
         = [(''POST'', Some (JObj [(''properties'', JObj
              (merge_field params s ''lastname''
                 (merge_field params s ''firstname''
                    (merge_field params s ''email'' []))))]))])
   \<and> (map_of params ''properties'' = Some (PDict a) \<and> distinct (refs params) \<longrightarrow>
        map (\<lambda>r. (req_method r, req_json r))
           (issued s (fst (handle_tool_call (MCPServer_init cfg) w ''create_contact'' params s)))
         = [(''POST'', Some (JObj [(''properties'', JObj
              (merge_field params s ''lastname''
                 (merge_field params s ''firstname''
                    (merge_field params s ''email'' (heap s a)))))]))])
   \<and> (\<forall>d k. map_of (merge_field params s ''lastname''
                      (merge_field params s ''firstname''
                         (merge_field params s ''email'' d))) k
                = (case shorthand params s k of Some v \<Rightarrow> Some v | None \<Rightarrow> map_of d k))"
proof -
  let ?c = "HubSpotClient_init cfg"
  have d: "\<And>p. issued s (fst (handle_tool_call (MCPServer_init cfg) w ''create_contact'' p s))
             = issued s (fst (handle_create_contact ?c w p s))"
    by (rule dispatch_issued [OF server_handlers(3)])
  have e1: "map (\<lambda>r. (req_method r, req_json r))
     (issued s (fst (handle_create_contact ?c w
        [(''email'', PStr ''a@b.com''), (''firstname'', PStr ''X'')] s)))
     = [(''POST'', Some (JObj [(''properties'',
           JObj [(''email'', JStr ''a@b.com''), (''firstname'', JStr ''X'')])]))]"
    by (simp add: handle_create_contact_def copy_field_def new_dict_def create_contact_def
        issued_def request_sent)
  have e2: "heap s a = [(''email'', JStr ''old@b.com''), (''lastname'', JStr ''Y'')] \<longrightarrow>
        map (\<lambda>r. (req_method r, req_json r))
           (issued s (fst (handle_create_contact ?c w
              [(''email'', PStr ''a@b.com''), (''properties'', PDict a)] s)))
         = [(''POST'', Some (JObj [(''properties'',
               JObj [(''email'', JStr ''a@b.com''), (''lastname'', JStr ''Y'')])]))]"
    by (simp add: handle_create_contact_def copy_field_def new_dict_def create_contact_def
        issued_def request_sent)
  have g1: "map (\<lambda>r. (req_method r, req_json r))
           (issued s (fst (handle_create_contact ?c w params s)))
         = [(''POST'', Some (JObj [(''properties'', JObj
              (merge_field params s ''lastname''
                 (merge_field params s ''firstname''
                    (merge_field params s ''email'' []))))]))]"
    if "map_of params ''properties'' = None" "\<forall>b \<in> set (refs params). b < lim s"
  proof (rule create_contact_fresh_body)
    show "map_of params ''properties'' = None" by (rule that(1))
    show "lim s \<notin> set (refs params)" using that(2) by auto
  qed
  have g2: "map (\<lambda>r. (req_method r, req_json r))
           (issued s (fst (handle_create_contact ?c w params s)))
         = [(''POST'', Some (JObj [(''properties'', JObj
              (merge_field params s ''lastname''
                 (merge_field params s ''firstname''
                    (merge_field params s ''email'' (heap s a)))))]))]"
    if "map_of params ''properties'' = Some (PDict a)" "distinct (refs params)"
    using that by (rule create_contact_own_body)
  show ?thesis
    unfolding d using e1 e2 g1 g2 merged_lookup by blast
qed

theorem create_contact_body_witness:
  "heap state1 0 = [(''email'', JStr ''old@b.com''), (''lastname'', JStr ''Y'')] \<and>
   map (\<lambda>r. (req_method r, req_json r))
     (issued state1 (fst (handle_tool_call (MCPServer_init cfg_token) (answering (Answered created))
        ''create_contact'' [(''email'', PStr ''a@b.com''), (''properties'', PDict 0)] state1)))
     = [(''POST'', Some (JObj [(''properties'',
           JObj [(''email'', JStr ''a@b.com''), (''lastname'', JStr ''Y'')])]))]
   \<and> map (\<lambda>r. (req_method r, req_json r))
     (issued state1 (fst (handle_tool_call (MCPServer_init cfg_token) (answering (Answered created))
        ''create_contact'' [(''email'', PStr ''a@b.com''), (''lastname'', PStr ''Z'')] state1)))
     = [(''POST'', Some (JObj [(''properties'',
           JObj [(''email'', JStr ''a@b.com''), (''lastname'', JStr ''Z'')])]))]
   \<and> map (\<lambda>r. (req_method r, req_json r))
     (issued state1 (fst (handle_tool_call (MCPServer_init cfg_token) (answering (Answered created))
        ''create_contact'' [(''firstname'', PStr ''X''), (''properties'', PDict 0)] state1)))
     = [(''POST'', Some (JObj [(''properties'',
           JObj [(''email'', JStr ''old@b.com''), (''lastname'', JStr ''Y''),
                 (''firstname'', JStr ''X'')])]))]"
proof -
  have h: "heap state1 0 = [(''email'', JStr ''old@b.com''), (''lastname'', JStr ''Y'')]"
    by (simp add: state1_def)
  show ?thesis
    using h
      create_contact_body [where s = state1 and a = 0 and cfg = cfg_token
        and w = "answering (Answered created)"
        and params = "[(''email'', PStr ''a@b.com''), (''lastname'', PStr ''Z'')]"]
      create_contact_body [where s = state1 and a = 0 and cfg = cfg_token
        and w = "answering (Answered created)"
        and params = "[(''firstname'', PStr ''X''), (''properties'', PDict 0)]"]
    by (simp add: merge_field_def)
qed

end
